theory Spec2Isabelle
  imports Complex_Main
begin

section \<open>JavaScript values used by the data cube indexer\<close>

text \<open>
  The indexer (packages/core/src/DataCubeIndexer.js) compares clause sources with
  \<open>===\<close> and tests them for truthiness. A source is an arbitrary JavaScript value;
  objects are represented by their identity. Numbers that occur as sources are kept to
  the integers and NaN, which is all the truthiness test distinguishes.
\<close>

datatype jsval =
    JUndefined
  | JNull
  | JBool bool
  | JNum int
  | JNaN
  | JStr string
  | JObj nat

fun truthy :: "jsval \<Rightarrow> bool" where
  "truthy JUndefined = False"
| "truthy JNull = False"
| "truthy (JBool b) = b"
| "truthy (JNum n) = (n \<noteq> 0)"
| "truthy JNaN = False"
| "truthy (JStr s) = (s \<noteq> [])"
| "truthy (JObj a) = True"

fun strict_eq :: "jsval \<Rightarrow> jsval \<Rightarrow> bool" where
  "strict_eq JNaN y = False"
| "strict_eq x JNaN = False"
| "strict_eq x y = (x = y)"

subsection \<open>Numbers of the scale arithmetic\<close>

text \<open>
  \<open>binInterval\<close> computes with JavaScript numbers. They are modelled as exact
  rationals extended by the two infinities and NaN, so that a division by zero is what
  JavaScript makes of it and not the \<open>0\<close> of HOL. The rounding of IEEE doubles and the
  sign of zero are outside this model.
\<close>

datatype jsnum = Fin rat | PosInf | NegInf | NaN

fun js_sub :: "jsnum \<Rightarrow> jsnum \<Rightarrow> jsnum" where
  "js_sub NaN y = NaN"
| "js_sub x NaN = NaN"
| "js_sub (Fin a) (Fin b) = Fin (a - b)"
| "js_sub (Fin a) PosInf = NegInf"
| "js_sub (Fin a) NegInf = PosInf"
| "js_sub PosInf PosInf = NaN"
| "js_sub PosInf y = PosInf"
| "js_sub NegInf NegInf = NaN"
| "js_sub NegInf y = NegInf"

fun js_abs :: "jsnum \<Rightarrow> jsnum" where
  "js_abs (Fin a) = Fin \<bar>a\<bar>"
| "js_abs PosInf = PosInf"
| "js_abs NegInf = PosInf"
| "js_abs NaN = NaN"

fun js_div :: "jsnum \<Rightarrow> jsnum \<Rightarrow> jsnum" where
  "js_div NaN y = NaN"
| "js_div x NaN = NaN"
| "js_div (Fin a) (Fin b) =
     (if b \<noteq> 0 then Fin (a / b)
      else if a = 0 then NaN
      else if 0 < a then PosInf else NegInf)"
| "js_div (Fin a) y = Fin 0"
| "js_div PosInf (Fin b) = (if b < 0 then NegInf else PosInf)"
| "js_div NegInf (Fin b) = (if b < 0 then PosInf else NegInf)"
| "js_div x y = NaN"

fun js_eq :: "jsnum \<Rightarrow> jsnum \<Rightarrow> bool" where
  "js_eq NaN y = False"
| "js_eq x NaN = False"
| "js_eq x y = (x = y)"

fun js_min2 :: "jsnum \<Rightarrow> jsnum \<Rightarrow> jsnum" where
  "js_min2 NaN y = NaN"
| "js_min2 x NaN = NaN"
| "js_min2 NegInf y = NegInf"
| "js_min2 x NegInf = NegInf"
| "js_min2 PosInf y = y"
| "js_min2 x PosInf = x"
| "js_min2 (Fin a) (Fin b) = Fin (min a b)"

fun js_max2 :: "jsnum \<Rightarrow> jsnum \<Rightarrow> jsnum" where
  "js_max2 NaN y = NaN"
| "js_max2 x NaN = NaN"
| "js_max2 PosInf y = PosInf"
| "js_max2 x PosInf = PosInf"
| "js_max2 NegInf y = y"
| "js_max2 x NegInf = x"
| "js_max2 (Fin a) (Fin b) = Fin (max a b)"

text \<open>\<open>Math.min(...xs)\<close> and \<open>Math.max(...xs)\<close>: the empty call gives the neutral infinity.\<close>

definition Math_min :: "jsnum list \<Rightarrow> jsnum" where
  "Math_min xs = foldr js_min2 xs PosInf"

definition Math_max :: "jsnum list \<Rightarrow> jsnum" where
  "Math_max xs = foldr js_max2 xs NegInf"

text \<open>Reading an array element as a number: a missing element is \<open>undefined\<close>, hence NaN.\<close>

definition num_at :: "jsnum list \<Rightarrow> nat \<Rightarrow> jsnum" where
  "num_at xs i = (if i < length xs then xs ! i else NaN)"

subsection \<open>Number and string conversions\<close>

text \<open>Digits of a natural number in base \<open>b\<close>, most significant first, lower case.\<close>

fun digits :: "nat \<Rightarrow> nat \<Rightarrow> string" where
  "digits b n =
     (if b < 2 \<or> n < b then [''0123456789abcdefghijklmnopqrstuvwxyz'' ! n]
      else digits b (n div b) @ [''0123456789abcdefghijklmnopqrstuvwxyz'' ! (n mod b)])"

declare digits.simps [simp del]

text \<open>
  \<open>`${x}`\<close> for a number. An integral value below \<open>10^21\<close> prints as its decimal digits.
  The digits of any other finite value depend on the double nearest to it, so their
  printer \<open>fmt\<close> is a parameter.
\<close>

definition Number_toString :: "(rat \<Rightarrow> string) \<Rightarrow> jsnum \<Rightarrow> string" where
  "Number_toString fmt x =
     (case x of
        NaN \<Rightarrow> ''NaN''
      | PosInf \<Rightarrow> ''Infinity''
      | NegInf \<Rightarrow> ''-Infinity''
      | Fin r \<Rightarrow>
          if of_int \<lfloor>r\<rfloor> = r \<and> \<bar>r\<bar> < 10 ^ 21
          then (if r < 0 then ''-'' else []) @ digits 10 (nat \<bar>\<lfloor>r\<rfloor>\<bar>)
          else fmt r)"

text \<open>\<open>String.prototype.toLowerCase\<close> on the ASCII letters; other bytes are kept.\<close>

definition toLowerCase_char :: "char \<Rightarrow> char" where
  "toLowerCase_char c =
     (let n = (of_char c :: nat) in if 65 \<le> n \<and> n \<le> 90 then char_of (n + 32) else c)"

definition toLowerCase :: "string \<Rightarrow> string" where
  "toLowerCase s = map toLowerCase_char s"

text \<open>\<open>`${bin}`\<close> for a bin method that is a string or \<open>undefined\<close>.\<close>

definition template_string :: "string option \<Rightarrow> string" where
  "template_string b = (case b of None \<Rightarrow> ''undefined'' | Some s \<Rightarrow> s)"

section \<open>SQL expressions\<close>

text \<open>
  The SQL builder's expression classes are consumed through the properties the indexer
  and the query printer read: the printed text (\<open>toString\<close>), the referenced base
  columns (\<open>.columns\<close>), and for a column reference (\<open>instanceof Ref\<close>) its
  \<open>.column\<close> and \<open>.table\<close>.
\<close>

record sqlexpr =
  sx_text :: string
  sx_columns :: "string list"
  sx_ref :: bool
  sx_column :: "string option"
  sx_table :: "string option"

section \<open>The bin function synthesizer\<close>

text \<open>
  \<open>const BIN = { ceil: 'CEIL', round: 'ROUND' }\<close> is a plain object, so \<open>BIN[key]\<close>
  also finds the properties inherited from \<open>Object.prototype\<close>. A key produced by
  \<open>toLowerCase\<close> has no capital letter, which leaves \<open>constructor\<close> (the function
  \<open>Object\<close>) and \<open>__proto__\<close> (the prototype object); both are truthy, and the
  template prints them through their string conversion.
\<close>

datatype property = Own string | Inherited string | Absent

definition BIN :: "string \<Rightarrow> property" where
  "BIN key =
     (if key = ''ceil'' then Own ''CEIL''
      else if key = ''round'' then Own ''ROUND''
      else if key = ''constructor'' then Inherited ''function Object() { [native code] }''
      else if key = ''__proto__'' then Inherited ''[object Object]''
      else Absent)"

text \<open>\<open>const fn = BIN[`${bin}`.toLowerCase()] || 'FLOOR'\<close>\<close>

definition bin_fn :: "string option \<Rightarrow> string" where
  "bin_fn bin =
     (case BIN (toLowerCase (template_string bin)) of
        Own f \<Rightarrow> f
      | Inherited f \<Rightarrow> f
      | Absent \<Rightarrow> ''FLOOR'')"

text \<open>
  The result of \<open>scaleTransform(scale)\<close>, as \<open>binInterval\<close> destructures it. The
  function \<open>scaleTransform\<close> belongs to the SQL package and is taken as given;
  \<open>apply\<close> is missing for an unsupported scale type.
\<close>

record scale_transform =
  st_type :: string
  st_domain :: "jsnum list"
  st_range :: "jsnum list"
  st_apply :: "(jsnum \<Rightarrow> jsnum) option"
  st_sqlApply :: "sqlexpr \<Rightarrow> sqlexpr"

text \<open>
  The closure \<open>value => sql`${fn}(${s}(${sqlApply(value)}${d}))::INTEGER`\<close> that
  \<open>binInterval\<close> returns, as the data it captures.
\<close>

record bin_closure =
  bc_fn :: string
  bc_s :: string
  bc_d :: string
  bc_sqlApply :: "sqlexpr \<Rightarrow> sqlexpr"

definition binInterval ::
  "(rat \<Rightarrow> string) \<Rightarrow> scale_transform \<Rightarrow> jsnum \<Rightarrow> string option \<Rightarrow> bin_closure option" where
  "binInterval fmt st pixelSize bin =
     (case st_apply st of
        None \<Rightarrow> None
      | Some ap \<Rightarrow>
          let fn = bin_fn bin;
              lo = ap (Math_min (st_domain st));
              hi = ap (Math_max (st_domain st));
              a = (if st_type st = ''identity'' then Fin 1
                   else js_div (js_abs (js_sub (num_at (st_range st) 1) (num_at (st_range st) 0)))
                          (js_sub hi lo));
              s = (if js_eq (js_div a pixelSize) (Fin 1) then []
                   else Number_toString fmt (js_div a pixelSize) @ ''::DOUBLE * '');
              d = (if js_eq lo (Fin 0) then []
                   else '' - '' @ Number_toString fmt lo @ ''::DOUBLE'')
          in Some \<lparr>bc_fn = fn, bc_s = s, bc_d = d, bc_sqlApply = st_sqlApply st\<rparr>)"

text \<open>
  Calling the closure. The \<open>sql\<close> template tag splices strings as they are and prints an
  embedded expression; the result depends on the columns of the embedded expression.
\<close>

definition bin_call :: "bin_closure \<Rightarrow> sqlexpr \<Rightarrow> sqlexpr" where
  "bin_call f v =
     \<lparr>sx_text = bc_fn f @ ''('' @ bc_s f @ ''('' @ sx_text (bc_sqlApply f v) @ bc_d f
                 @ ''))::INTEGER'',
      sx_columns = remdups (sx_columns (bc_sqlApply f v)),
      sx_ref = False, sx_column = None, sx_table = None\<rparr>"





section \<open>The SQL query builder (packages/sql/src/Query.js)\<close>

text \<open>
  Functions that the sources import from modules outside the two modelled files are
  parameters of the model, collected in one record: \<open>column\<close> and \<open>relation\<close> behind
  \<open>asColumn\<close> and \<open>asRelation\<close>, the printer of non-integral numbers, \<open>isBetween\<close>,
  \<open>and\<close> and \<open>create\<close> of the SQL package, and \<open>fnv_hash\<close> of the core utilities.
\<close>

record sqllib =
  lib_column :: "string \<Rightarrow> sqlexpr"
  lib_relation :: "string \<Rightarrow> sqlexpr"
  lib_number :: "rat \<Rightarrow> string"
  lib_isBetween :: "string \<Rightarrow> sqlexpr list \<Rightarrow> sqlexpr"
  lib_and :: "sqlexpr list \<Rightarrow> sqlexpr"
  lib_create :: "string \<Rightarrow> string \<Rightarrow> string"
  lib_fnv_hash :: "string \<Rightarrow> int"

datatype error = TypeError | RangeError

text \<open>Running a list of fallible computations: the first exception wins.\<close>

fun collect :: "(error + 'a) list \<Rightarrow> error + 'a list" where
  "collect [] = Inr []"
| "collect (Inl e # rs) = Inl e"
| "collect (Inr x # rs) = (case collect rs of Inl e \<Rightarrow> Inl e | Inr xs \<Rightarrow> Inr (x # xs))"

subsection \<open>Query objects in a store\<close>

text \<open>
  Query objects are mutable and shared (a subquery is referenced from the FROM list of
  its parent, \<open>cteFor\<close> points back to the query owning a WITH clause), so they live in a
  store and are referred to by address. The arrays held in \<open>this.query\<close> are never
  updated in place (every method assigns a fresh array made by \<open>concat\<close> or \<open>filter\<close>),
  so they are values. Objects made by \<open>Query.describe\<close>, which replaces \<open>clone\<close> and
  \<open>toString\<close> on the instance, are outside the model.
\<close>

type_synonym addr = nat

datatype from_src = FromQuery addr | FromExpr sqlexpr

type_synonym select_item = "string option \<times> sqlexpr"
type_synonym from_item = "string option \<times> from_src"

record sample =
  sm_rows :: "jsnum option"
  sm_perc :: "jsnum option"
  sm_method :: "string option"
  sm_seed :: "jsnum option"

record query_body =
  q_with :: "(string \<times> addr) list"
  q_select :: "select_item list"
  q_distinct :: bool
  q_from :: "from_item list"
  q_sample :: "sample option"
  q_where :: "sqlexpr list"
  q_groupby :: "sqlexpr list"
  q_having :: "sqlexpr list"
  q_window :: "(string \<times> sqlexpr) list"
  q_qualify :: "sqlexpr list"
  q_orderby :: "sqlexpr list"
  q_limit :: "jsnum option"
  q_offset :: "jsnum option"

text \<open>
  \<open>Query (this.query) (this.cteFor)\<close> and
  \<open>SetOperation (this.op) (this.queries) (this.query.orderby) (this.query.limit)
  (this.query.offset) (this.cteFor)\<close>.
\<close>

datatype obj =
    Query query_body "addr option"
  | SetOperation string "addr list" "sqlexpr list" "jsnum option" "jsnum option" "addr option"

type_synonym heap = "obj list"

definition obj_at :: "heap \<Rightarrow> addr \<Rightarrow> obj option" where
  "obj_at h a = (if a < length h then Some (h ! a) else None)"

definition alloc :: "heap \<Rightarrow> obj \<Rightarrow> addr \<times> heap" where
  "alloc h ob = (length h, h @ [ob])"

text \<open>The constructor: \<open>new Query()\<close>.\<close>

definition new_body :: query_body where
  "new_body =
     \<lparr>q_with = [], q_select = [], q_distinct = False, q_from = [], q_sample = None,
      q_where = [], q_groupby = [], q_having = [], q_window = [], q_qualify = [],
      q_orderby = [], q_limit = None, q_offset = None\<rparr>"

definition new_Query :: "heap \<Rightarrow> addr \<times> heap" where
  "new_Query h = alloc h (Query new_body None)"

subsection \<open>Arguments of the builder methods\<close>

text \<open>
  The methods take rest parameters and flatten them one level (\<open>expr.flat()\<close>): an
  argument is a single value or an array of values.
\<close>

datatype 'a arg = One 'a | Arr "'a list"

fun flat1 :: "'a arg \<Rightarrow> 'a list" where
  "flat1 (One x) = [x]"
| "flat1 (Arr xs) = xs"

definition flat :: "'a arg list \<Rightarrow> 'a list" where
  "flat args = concat (map flat1 args)"

text \<open>A value given where a column is expected: null or undefined, a string, an expression.\<close>

datatype colspec = CNull | CStr string | CExpr sqlexpr

fun asColumn :: "sqllib \<Rightarrow> colspec \<Rightarrow> sqlexpr option" where
  "asColumn L CNull = None"
| "asColumn L (CStr s) = Some (lib_column L s)"
| "asColumn L (CExpr e) = Some e"

fun colspec_truthy :: "colspec \<Rightarrow> bool" where
  "colspec_truthy CNull = False"
| "colspec_truthy (CStr s) = (s \<noteq> [])"
| "colspec_truthy (CExpr e) = True"

text \<open>A value given where a relation is expected: a table name, an expression, a query.\<close>

datatype relspec = RStr string | RExpr sqlexpr | RQuery addr

fun asRelation :: "sqllib \<Rightarrow> relspec \<Rightarrow> from_src" where
  "asRelation L (RStr s) = FromExpr (lib_relation L s)"
| "asRelation L (RExpr e) = FromExpr e"
| "asRelation L (RQuery q) = FromQuery q"

definition isDoubleQuoted :: "string \<Rightarrow> bool" where
  "isDoubleQuoted s = (s \<noteq> [] \<and> hd s = CHR 0x22 \<and> last s = CHR 0x22)"

definition unquote :: "string \<Rightarrow> string" where
  "unquote s = (if isDoubleQuoted s then butlast (tl s) else s)"

subsection \<open>select\<close>

text \<open>
  One flattened argument of \<open>select\<close>: null, a string, a \<open>Ref\<close>, an array
  \<open>[as, expr]\<close>, or an object whose keys are aliases (in insertion order).
\<close>

datatype select_elem =
    SNull
  | SStr string
  | SRef sqlexpr
  | SPair "string option" "sqlexpr option"
  | SObj "(string \<times> colspec) list"

fun select_entries :: "sqllib \<Rightarrow> select_elem \<Rightarrow> (string option \<times> sqlexpr option) list" where
  "select_entries L SNull = []"
| "select_entries L (SStr s) = [(Some s, Some (lib_column L s))]"
| "select_entries L (SRef e) = [(sx_column e, Some e)]"
| "select_entries L (SPair a e) = [(a, e)]"
| "select_entries L (SObj kvs) = map (\<lambda>(k, v). (Some (unquote k), asColumn L v)) kvs"

text \<open>\<open>list.filter(x => x.expr)\<close>\<close>

fun with_expr :: "(string option \<times> sqlexpr option) list \<Rightarrow> select_item list" where
  "with_expr [] = []"
| "with_expr ((k, None) # xs) = with_expr xs"
| "with_expr ((k, Some e) # xs) = (k, e) # with_expr xs"

text \<open>
  \<open>select(...expr)\<close> with at least one argument (without arguments the method is the
  getter, \<open>q_select\<close> of the body). The new entries replace the entries of the same alias.
\<close>

definition select_update ::
  "sqllib \<Rightarrow> select_elem arg list \<Rightarrow> select_item list \<Rightarrow> select_item list" where
  "select_update L args old =
     (let list = concat (map (select_entries L) (flat args));
          keys = set (map fst list)
      in filter (\<lambda>x. fst x \<notin> keys) old @ with_expr list)"

definition Query_select :: "sqllib \<Rightarrow> heap \<Rightarrow> addr \<Rightarrow> select_elem arg list \<Rightarrow> error + heap" where
  "Query_select L h a args =
     (case obj_at h a of
        Some (Query b cf) \<Rightarrow>
          Inr (h[a := Query (b\<lparr>q_select := select_update L args (q_select b)\<rparr>) cf])
      | _ \<Rightarrow> Inl TypeError)"

subsection \<open>from, where, groupby, orderby\<close>

datatype from_elem =
    FNull
  | FStr string
  | FRef sqlexpr
  | FQuery addr
  | FSql sqlexpr
  | FPair string relspec
  | FObj "(string \<times> relspec) list"

fun from_entries :: "sqllib \<Rightarrow> from_elem \<Rightarrow> from_item list" where
  "from_entries L FNull = []"
| "from_entries L (FStr s) = [(Some s, FromExpr (lib_relation L s))]"
| "from_entries L (FRef e) = [(sx_table e, FromExpr e)]"
| "from_entries L (FQuery q) = [(None, FromQuery q)]"
| "from_entries L (FSql e) = [(None, FromExpr e)]"
| "from_entries L (FPair k r) = [(Some (unquote k), asRelation L r)]"
| "from_entries L (FObj kvs) = map (\<lambda>(k, r). (Some (unquote k), asRelation L r)) kvs"

definition Query_from :: "sqllib \<Rightarrow> heap \<Rightarrow> addr \<Rightarrow> from_elem arg list \<Rightarrow> error + heap" where
  "Query_from L h a args =
     (case obj_at h a of
        Some (Query b cf) \<Rightarrow>
          Inr (h[a := Query (b\<lparr>q_from := q_from b @ concat (map (from_entries L) (flat args))\<rparr>) cf])
      | _ \<Rightarrow> Inl TypeError)"

text \<open>\<open>where(...expr)\<close>: the truthy arguments are appended; \<open>None\<close> is a falsy argument.\<close>

definition Query_where :: "heap \<Rightarrow> addr \<Rightarrow> sqlexpr option arg list \<Rightarrow> error + heap" where
  "Query_where h a args =
     (case obj_at h a of
        Some (Query b cf) \<Rightarrow>
          Inr (h[a := Query (b\<lparr>q_where := q_where b @ List.map_filter (\<lambda>x. x) (flat args)\<rparr>) cf])
      | _ \<Rightarrow> Inl TypeError)"

text \<open>\<open>expr.flat().filter(x => x).map(asColumn)\<close>\<close>

definition as_columns :: "sqllib \<Rightarrow> colspec arg list \<Rightarrow> sqlexpr list" where
  "as_columns L args = List.map_filter (asColumn L) (filter colspec_truthy (flat args))"

definition Query_groupby :: "sqllib \<Rightarrow> heap \<Rightarrow> addr \<Rightarrow> colspec arg list \<Rightarrow> error + heap" where
  "Query_groupby L h a args =
     (case obj_at h a of
        Some (Query b cf) \<Rightarrow>
          Inr (h[a := Query (b\<lparr>q_groupby := q_groupby b @ as_columns L args\<rparr>) cf])
      | _ \<Rightarrow> Inl TypeError)"

text \<open>\<open>orderby\<close> exists on both classes.\<close>

definition orderby_get :: "heap \<Rightarrow> addr \<Rightarrow> error + sqlexpr list" where
  "orderby_get h a =
     (case obj_at h a of
        Some (Query b cf) \<Rightarrow> Inr (q_orderby b)
      | Some (SetOperation op qs ob lm off cf) \<Rightarrow> Inr ob
      | None \<Rightarrow> Inl TypeError)"

definition orderby_add :: "sqllib \<Rightarrow> heap \<Rightarrow> addr \<Rightarrow> colspec arg list \<Rightarrow> error + heap" where
  "orderby_add L h a args =
     (case obj_at h a of
        Some (Query b cf) \<Rightarrow>
          Inr (h[a := Query (b\<lparr>q_orderby := q_orderby b @ as_columns L args\<rparr>) cf])
      | Some (SetOperation op qs ob lm off cf) \<Rightarrow>
          Inr (h[a := SetOperation op qs (ob @ as_columns L args) lm off cf])
      | None \<Rightarrow> Inl TypeError)"

subsection \<open>clone\<close>

text \<open>
  \<open>Query.clone\<close>: a new Query object whose \<open>query\<close> is a shallow copy
  \<open>{ ...this.query }\<close>; its \<open>cteFor\<close> is the constructor's \<open>null\<close>.
\<close>

definition Query_clone :: "heap \<Rightarrow> query_body \<Rightarrow> addr \<times> heap" where
  "Query_clone h b = alloc h (Query b None)"

subsection \<open>subqueries\<close>

text \<open>
  The getter builds the object \<open>cte\<close> from the WITH entries by \<open>o[as] = query\<close>, so a
  later entry of the same name wins, and then reads \<open>cte[from.table]\<close>. The object is a
  plain one: under a table name that is a property of \<open>Object.prototype\<close> and not a CTE
  the lookup finds the inherited value, which is truthy and is pushed as if it were a
  query. A CTE named \<open>__proto__\<close> is outside the model.
\<close>

datatype subquery = SubQuery addr | SubInherited string

definition Object_prototype_keys :: "string list" where
  "Object_prototype_keys =
     [''constructor'', ''__defineGetter__'', ''__defineSetter__'', ''hasOwnProperty'',
      ''__lookupGetter__'', ''__lookupSetter__'', ''isPrototypeOf'',
      ''propertyIsEnumerable'', ''toString'', ''valueOf'', ''__proto__'',
      ''toLocaleString'']"

definition cte_lookup :: "(string \<times> addr) list \<Rightarrow> string \<Rightarrow> subquery option" where
  "cte_lookup ctes key =
     (case map_of (rev ctes) key of
        Some q \<Rightarrow> Some (SubQuery q)
      | None \<Rightarrow> if key \<in> set Object_prototype_keys then Some (SubInherited key) else None)"

text \<open>The property key \<open>from.table\<close>: a missing table is the key \<open>undefined\<close>.\<close>

definition table_key :: "sqlexpr \<Rightarrow> string" where
  "table_key e = (case sx_table e of None \<Rightarrow> ''undefined'' | Some t \<Rightarrow> t)"

text \<open>
  \<open>(cteFor?.query || query).with\<close>: the WITH list of the owning query, else the
  query's own. A set operation as owner has a \<open>query\<close> without \<open>with\<close>.
\<close>

definition ctes_of :: "heap \<Rightarrow> query_body \<Rightarrow> addr option \<Rightarrow> (string \<times> addr) list option" where
  "ctes_of h b cf =
     (case cf of
        None \<Rightarrow> Some (q_with b)
      | Some c \<Rightarrow>
          (case obj_at h c of
             Some (Query cb ccf) \<Rightarrow> Some (q_with cb)
           | _ \<Rightarrow> None))"

fun from_subquery :: "(string \<times> addr) list option \<Rightarrow> from_item \<Rightarrow> error + subquery list" where
  "from_subquery ctes (as, FromQuery q) = Inr [SubQuery q]"
| "from_subquery None (as, FromExpr e) = Inl TypeError"
| "from_subquery (Some cs) (as, FromExpr e) =
     (case cte_lookup cs (table_key e) of None \<Rightarrow> Inr [] | Some s \<Rightarrow> Inr [s])"

fun set_cteFor :: "addr \<Rightarrow> obj \<Rightarrow> obj" where
  "set_cteFor c (Query b cf) = Query b (Some c)"
| "set_cteFor c (SetOperation op qs ob lm off cf) = SetOperation op qs ob lm off (Some c)"

text \<open>\<open>queries.forEach(q => q.cteFor = cteFor)\<close>\<close>

fun assign_cteFor :: "addr \<Rightarrow> heap \<Rightarrow> addr list \<Rightarrow> heap" where
  "assign_cteFor c h [] = h"
| "assign_cteFor c h (q # qs) =
     assign_cteFor c (if q < length h then h[q := set_cteFor c (h ! q)] else h) qs"

text \<open>
  The getter \<open>subqueries\<close> of both classes. The one of \<open>SetOperation\<close> writes the
  operation's \<open>cteFor\<close> into its operands, so the store is returned as well.
\<close>

definition subqueries :: "heap \<Rightarrow> addr \<Rightarrow> error + (subquery list \<times> heap)" where
  "subqueries h a =
     (case obj_at h a of
        None \<Rightarrow> Inl TypeError
      | Some (Query b cf) \<Rightarrow>
          (case collect (map (from_subquery (ctes_of h b cf)) (q_from b)) of
             Inl e \<Rightarrow> Inl e
           | Inr qs \<Rightarrow> Inr (concat qs, h))
      | Some (SetOperation op qs ob lm off cf) \<Rightarrow>
          Inr (map SubQuery qs,
               (case cf of None \<Rightarrow> h | Some c \<Rightarrow> assign_cteFor c h qs)))"

subsection \<open>toString\<close>

fun join :: "string \<Rightarrow> string list \<Rightarrow> string" where
  "join sep [] = []"
| "join sep [x] = x"
| "join sep (x # y # ys) = x @ sep @ join sep (y # ys)"

definition dq :: string where
  "dq = [CHR 0x22]"

definition str_truthy :: "string option \<Rightarrow> bool" where
  "str_truthy s = (case s of None \<Rightarrow> False | Some t \<Rightarrow> t \<noteq> [])"

definition num_truthy :: "jsnum option \<Rightarrow> bool" where
  "num_truthy x = (case x of None \<Rightarrow> False | Some NaN \<Rightarrow> False | Some (Fin r) \<Rightarrow> r \<noteq> 0
                   | Some y \<Rightarrow> True)"

definition num_template :: "sqllib \<Rightarrow> jsnum option \<Rightarrow> string" where
  "num_template L x =
     (case x of None \<Rightarrow> ''undefined'' | Some n \<Rightarrow> Number_toString (lib_number L) n)"

definition isFinite :: "jsnum option \<Rightarrow> bool" where
  "isFinite x = (case x of Some (Fin r) \<Rightarrow> True | _ \<Rightarrow> False)"

text \<open>\<open>isColumnRefFor(expr, as)\<close> of the SQL package: \<open>expr\<close> is a \<open>Ref\<close> of that column.\<close>

definition isColumnRefFor :: "sqlexpr \<Rightarrow> string option \<Rightarrow> bool" where
  "isColumnRefFor e name = (sx_ref e \<and> sx_column e = name)"

definition select_sql :: "select_item \<Rightarrow> string" where
  "select_sql item =
     (case item of (as, expr) \<Rightarrow>
        if isColumnRefFor expr as \<and> \<not> str_truthy (sx_table expr) then sx_text expr
        else sx_text expr @ '' AS '' @ dq @ template_string as @ dq)"

text \<open>One FROM entry, given the printed text \<open>s\<close> of its relation.\<close>

definition from_sql :: "from_item \<Rightarrow> string \<Rightarrow> string" where
  "from_sql item s =
     (case item of
        (as, FromQuery q) \<Rightarrow>
          if \<not> str_truthy as then ''('' @ s @ '')''
          else ''('' @ s @ '')'' @ '' AS '' @ dq @ template_string as @ dq
      | (as, FromExpr e) \<Rightarrow>
          if \<not> str_truthy as \<or> as = sx_table e then s
          else s @ '' AS '' @ dq @ template_string as @ dq)"

definition clauses_sql :: "string \<Rightarrow> sqlexpr list \<Rightarrow> string list" where
  "clauses_sql kw es =
     (if es = [] then []
      else let clauses = join '' AND '' (filter (\<lambda>x. x \<noteq> []) (map sx_text es))
           in if clauses = [] then [] else [kw @ '' '' @ clauses])"

definition list_sql :: "string \<Rightarrow> sqlexpr list \<Rightarrow> string list" where
  "list_sql kw es = (if es = [] then [] else [kw @ '' '' @ join '', '' (map sx_text es)])"

definition sample_sql :: "sqllib \<Rightarrow> sample option \<Rightarrow> string list" where
  "sample_sql L sm =
     (case sm of
        None \<Rightarrow> []
      | Some s \<Rightarrow>
          [''USING SAMPLE '' @
           (if num_truthy (sm_rows s) then num_template L (sm_rows s) @ '' ROWS''
            else num_template L (sm_perc s) @ '' PERCENT'') @
           (if str_truthy (sm_method s)
            then '' ('' @ template_string (sm_method s) @
                 (case sm_seed s of None \<Rightarrow> [] | Some n \<Rightarrow> '', '' @ num_template L (Some n))
                 @ '')''
            else [])])"

definition limit_sql :: "sqllib \<Rightarrow> string \<Rightarrow> jsnum option \<Rightarrow> string list" where
  "limit_sql L kw x = (if isFinite x then [kw @ '' '' @ num_template L x] else [])"

text \<open>
  The text of a Query, given the printed texts \<open>ws\<close> of its CTE queries and \<open>fs\<close> of its
  FROM relations.
\<close>

definition print_query :: "sqllib \<Rightarrow> query_body \<Rightarrow> string list \<Rightarrow> string list \<Rightarrow> string" where
  "print_query L b ws fs =
     join '' ''
       ((if q_with b = [] then []
         else [''WITH '' @ join '', ''
                 (map (\<lambda>(c, s). dq @ fst c @ dq @ '' AS ('' @ s @ '')'') (zip (q_with b) ws))])
        @ [''SELECT'' @ (if q_distinct b then '' DISTINCT'' else []) @ '' ''
             @ join '', '' (map select_sql (q_select b))]
        @ (if q_from b = [] then []
           else [''FROM '' @ join '', '' (map (\<lambda>(f, s). from_sql f s) (zip (q_from b) fs))])
        @ clauses_sql ''WHERE'' (q_where b)
        @ sample_sql L (q_sample b)
        @ list_sql ''GROUP BY'' (q_groupby b)
        @ clauses_sql ''HAVING'' (q_having b)
        @ (if q_window b = [] then []
           else [''WINDOW '' @ join '', ''
                   (map (\<lambda>(as, e). dq @ as @ dq @ '' AS ('' @ sx_text e @ '')'') (q_window b))])
        @ clauses_sql ''QUALIFY'' (q_qualify b)
        @ list_sql ''ORDER BY'' (q_orderby b)
        @ limit_sql L ''LIMIT'' (q_limit b)
        @ limit_sql L ''OFFSET'' (q_offset b))"

definition print_setop ::
  "sqllib \<Rightarrow> string \<Rightarrow> string list \<Rightarrow> sqlexpr list \<Rightarrow> jsnum option \<Rightarrow> jsnum option \<Rightarrow> string" where
  "print_setop L op ss ob lm off =
     join '' ''
       ([join ('' '' @ op @ '' '') ss]
        @ list_sql ''ORDER BY'' ob
        @ limit_sql L ''LIMIT'' lm
        @ limit_sql L ''OFFSET'' off)"

text \<open>
  \<open>toString\<close> of both classes recurses into the nested queries. A cyclic nesting
  recurses without end in the source (a RangeError); the model bounds the nesting depth
  by a fuel, which \<open>toString\<close> sets beyond the number of objects in the store.
\<close>

fun toString_fuel :: "nat \<Rightarrow> sqllib \<Rightarrow> heap \<Rightarrow> addr \<Rightarrow> error + string" where
  "toString_fuel 0 L h a = Inl RangeError"
| "toString_fuel (Suc n) L h a =
     (case obj_at h a of
        None \<Rightarrow> Inl TypeError
      | Some (Query b cf) \<Rightarrow>
          (case collect (map (\<lambda>c. toString_fuel n L h (snd c)) (q_with b)) of
             Inl e \<Rightarrow> Inl e
           | Inr ws \<Rightarrow>
               (case collect
                       (map (\<lambda>f. case snd f of
                                    FromQuery q \<Rightarrow> toString_fuel n L h q
                                  | FromExpr e \<Rightarrow> Inr (sx_text e))
                          (q_from b)) of
                  Inl e \<Rightarrow> Inl e
                | Inr fs \<Rightarrow> Inr (print_query L b ws fs)))
      | Some (SetOperation op qs ob lm off cf) \<Rightarrow>
          (case collect (map (toString_fuel n L h) qs) of
             Inl e \<Rightarrow> Inl e
           | Inr ss \<Rightarrow> Inr (print_setop L op ss ob lm off)))"

definition toString :: "sqllib \<Rightarrow> heap \<Rightarrow> addr \<Rightarrow> error + string" where
  "toString L h a = toString_fuel (Suc (length h)) L h a"

section \<open>The cube planner (packages/core/src/DataCubeIndexer.js)\<close>

subsection \<open>Subquery push-down\<close>

text \<open>
  The body of the closure \<open>pushdown\<close> for a query not yet in \<open>memo\<close>, up to the
  \<open>forEach\<close>: the test \<open>q.select && q.from().length\<close> holds for a Query with a
  non-empty FROM list (a set operation has no \<open>select\<close>), then \<open>q.select(cols)\<close>, then
  the getter \<open>q.subqueries\<close>.
\<close>

definition visit :: "sqllib \<Rightarrow> string list \<Rightarrow> heap \<Rightarrow> addr \<Rightarrow> error + (subquery list \<times> heap)" where
  "visit L cols h q =
     (case obj_at h q of
        None \<Rightarrow> Inl TypeError
      | Some (Query b cf) \<Rightarrow>
          (case (if q_from b \<noteq> [] then Query_select L h q [Arr (map SStr cols)] else Inr h) of
             Inl e \<Rightarrow> Inl e
           | Inr h1 \<Rightarrow> subqueries h1 q)
      | Some (SetOperation op qs ob lm off cf) \<Rightarrow> subqueries h q)"

lemma assign_cteFor_length: "length (assign_cteFor c h qs) = length h"
  by (induction qs arbitrary: h) auto

lemma subqueries_length: "subqueries h a = Inr (qs, h') \<Longrightarrow> length h' = length h"
  by (auto simp: subqueries_def assign_cteFor_length
      split: option.splits obj.splits sum.splits)

lemma Query_select_length: "Query_select L h a args = Inr h' \<Longrightarrow> length h' = length h"
  by (auto simp: Query_select_def split: option.splits obj.splits)

lemma visit_length:
  "visit L cols h q = Inr (subs, h') \<Longrightarrow> length h' = length h \<and> q < length h"
  by (auto simp: visit_def obj_at_def
      split: option.splits obj.splits sum.splits if_splits
      dest!: subqueries_length Query_select_length)

text \<open>
  \<open>subqueryPushdown\<close>: the recursion of \<open>pushdown\<close> through \<open>forEach\<close>, with the
  queries still to be visited kept as a list (the subqueries of the query just visited
  come first, as the nested \<open>forEach\<close> visits them before the siblings). An inherited
  value found by the getter has neither \<open>select\<close> nor \<open>subqueries\<close>, and
  \<open>q.subqueries.forEach\<close> throws on it.
\<close>

function pushdown ::
  "sqllib \<Rightarrow> string list \<Rightarrow> heap \<Rightarrow> addr list \<Rightarrow> subquery list \<Rightarrow> error + (heap \<times> addr list)" where
  "pushdown L cols h memo [] = Inr (h, memo)"
| "pushdown L cols h memo (SubInherited k # rest) = Inl TypeError"
| "pushdown L cols h memo (SubQuery q # rest) =
     (if q \<in> set memo then pushdown L cols h memo rest
      else (case visit L cols h q of
              Inl e \<Rightarrow> Inl e
            | Inr (subs, h') \<Rightarrow> pushdown L cols h' (q # memo) (subs @ rest)))"
  by pat_completeness auto
termination
proof (relation "measures [\<lambda>(L, cols, h, memo, w). length h - card (set memo \<inter> {..<length h}),
                            \<lambda>(L, cols, h, memo, w). length w]")
  show "wf (measures [\<lambda>(L, cols, h, memo, w). length h - card (set memo \<inter> {..<length h}),
                      \<lambda>(L, cols, h, memo, w). length w])"
    by simp
next
  fix L :: sqllib and cols :: "string list" and h :: heap and memo :: "addr list"
    and q :: addr and rest :: "subquery list"
  assume "q \<in> set memo"
  then show "((L, cols, h, memo, rest), (L, cols, h, memo, SubQuery q # rest))
      \<in> measures [\<lambda>(L, cols, h, memo, w). length h - card (set memo \<inter> {..<length h}),
                  \<lambda>(L, cols, h, memo, w). length w]"
    by simp
next
  fix L :: sqllib and cols :: "string list" and h :: heap and memo :: "addr list"
    and q :: addr and rest :: "subquery list" and x2 :: "subquery list \<times> heap"
    and subs :: "subquery list" and h' :: heap
  assume new: "q \<notin> set memo" and v: "visit L cols h q = Inr x2" and x2: "(subs, h') = x2"
  from v x2 have len: "length h' = length h" and q: "q < length h"
    using visit_length [of L cols h q subs h'] by auto
  have "set memo \<inter> {..<length h} \<subset> {..<length h}"
    using new q by auto
  then have "card (set memo \<inter> {..<length h}) < length h"
    using psubset_card_mono [of "{..<length h}" "set memo \<inter> {..<length h}"] by simp
  moreover have "card (set (q # memo) \<inter> {..<length h}) = Suc (card (set memo \<inter> {..<length h}))"
    using new q by simp
  ultimately have "length h' - card (set (q # memo) \<inter> {..<length h'})
      < length h - card (set memo \<inter> {..<length h})"
    unfolding len by linarith
  then show "((L, cols, h', q # memo, subs @ rest), (L, cols, h, memo, SubQuery q # rest))
      \<in> measures [\<lambda>(L, cols, h, memo, w). length h - card (set memo \<inter> {..<length h}),
                  \<lambda>(L, cols, h, memo, w). length w]"
    by simp
qed

definition subqueryPushdown ::
  "sqllib \<Rightarrow> heap \<Rightarrow> subquery \<Rightarrow> string list \<Rightarrow> error + heap" where
  "subqueryPushdown L h query cols =
     (case pushdown L cols h [] [query] of Inl e \<Rightarrow> Inl e | Inr (h', memo) \<Rightarrow> Inr h')"

subsection \<open>Plain objects as ordered maps\<close>

text \<open>
  A plain object whose keys are not array indices enumerates its keys in insertion
  order; assigning an existing key keeps its place.
\<close>

fun obj_put :: "(string \<times> 'a) list \<Rightarrow> string \<times> 'a \<Rightarrow> (string \<times> 'a) list" where
  "obj_put [] kv = [kv]"
| "obj_put ((k, v) # xs) kv = (if k = fst kv then (k, snd kv) # xs else (k, v) # obj_put xs kv)"

definition fromEntries :: "(string \<times> 'a) list \<Rightarrow> (string \<times> 'a) list" where
  "fromEntries kvs = foldl obj_put [] kvs"

text \<open>\<open>{ ...a, ...b }\<close>\<close>

definition spread :: "(string \<times> 'a) list \<Rightarrow> (string \<times> 'a) list \<Rightarrow> (string \<times> 'a) list" where
  "spread a b = foldl obj_put (fromEntries a) b"

subsection \<open>Selection clauses and the active-clause analyzer\<close>

text \<open>
  A clause predicate is an SQL expression that may expose \<open>field\<close>, \<open>range\<close> and
  \<open>children\<close>. A value handed to a bin function (a field, an end point of a range) is
  represented by the expression it denotes.
\<close>

datatype clause_pred =
  ClausePred (cp_expr: sqlexpr) (cp_field: sqlexpr) (cp_range: "sqlexpr list option")
    (cp_children: "clause_pred list option")

text \<open>
  \<open>meta\<close> of a clause. A scale is given by what \<open>scaleTransform\<close> returns for it.
\<close>

record meta =
  m_type :: string
  m_scales :: "scale_transform list option"
  m_bin :: "string option"
  m_pixelSize :: "jsnum option"

record clause =
  cl_source :: jsval
  cl_meta :: "meta option"
  cl_predicate :: "clause_pred option"

text \<open>The three predicate generators that \<open>activeColumns\<close> builds, as data.\<close>

datatype predicate_fn =
    PointPredicate
  | IntervalPredicate bin_closure
  | IntervalsPredicate "bin_closure list"

record active_columns =
  ac_source :: jsval
  ac_columns :: "(string \<times> sqlexpr) list option"
  ac_predicate :: "predicate_fn option"

definition not_indexable :: active_columns where
  "not_indexable = \<lparr>ac_source = JNull, ac_columns = None, ac_predicate = None\<rparr>"

text \<open>\<open>`active${i}`\<close>\<close>

definition active_name :: "nat \<Rightarrow> string" where
  "active_name i = ''active'' @ digits 10 i"

text \<open>\<open>clausePred.children.map((p, i) => [`active${i}`, bins[i](p.field)])\<close>\<close>

definition children_columns ::
  "bin_closure list \<Rightarrow> clause_pred list \<Rightarrow> error + (string \<times> sqlexpr) list" where
  "children_columns bins cs =
     collect (map (\<lambda>(i, p). if i < length bins
                              then Inr (active_name i, bin_call (bins ! i) (cp_field p))
                              else Inl TypeError)
                (enumerate 0 cs))"

definition activeColumns :: "sqllib \<Rightarrow> clause \<Rightarrow> error + active_columns" where
  "activeColumns L cl =
     (case (cl_meta cl, cl_predicate cl) of
        (Some m, Some pred) \<Rightarrow>
          if m_type m = ''point'' then
            Inr \<lparr>ac_source = cl_source cl,
                 ac_columns = Some (fromEntries
                    (map (\<lambda>col. (col, lib_column L col)) (sx_columns (cp_expr pred)))),
                 ac_predicate = Some PointPredicate\<rparr>
          else
            (case (if m_type m = ''interval'' then m_scales m else None) of
               None \<Rightarrow> Inr not_indexable
             | Some scales \<Rightarrow>
                 let pixelSize = (case m_pixelSize m of None \<Rightarrow> Fin 1 | Some n \<Rightarrow> n);
                     bins = map (\<lambda>s. binInterval (lib_number L) s pixelSize (m_bin m)) scales
                 in if list_ex (\<lambda>b. case b of None \<Rightarrow> True | Some f \<Rightarrow> False) bins
                    then Inr not_indexable
                    else if length bins = 1 then
                      Inr \<lparr>ac_source = cl_source cl,
                           ac_columns = Some [(active_name 0,
                              bin_call (the (hd bins)) (cp_field pred))],
                           ac_predicate = Some (IntervalPredicate (the (hd bins)))\<rparr>
                    else
                      (case cp_children pred of
                         None \<Rightarrow> Inl TypeError
                       | Some cs \<Rightarrow>
                           (case children_columns (map the bins) cs of
                              Inl e \<Rightarrow> Inl e
                            | Inr kvs \<Rightarrow>
                                Inr \<lparr>ac_source = cl_source cl,
                                     ac_columns = Some (fromEntries kvs),
                                     ac_predicate =
                                       Some (IntervalsPredicate (map the bins))\<rparr>)))
      | _ \<Rightarrow> Inr not_indexable)"

text \<open>
  Calling \<open>active.predicate(p)\<close>; the result is the argument later given to \<open>where\<close>.
  \<open>p\<close> is \<open>None\<close> for a missing (falsy) predicate.
\<close>

definition children_between ::
  "sqllib \<Rightarrow> bin_closure list \<Rightarrow> clause_pred list \<Rightarrow> error + sqlexpr list" where
  "children_between L bins cs =
     collect (map (\<lambda>(i, c). case cp_range c of
                               None \<Rightarrow> Inl TypeError
                             | Some r \<Rightarrow>
                                 if i < length bins
                                 then Inr (lib_isBetween L (active_name i)
                                        (map (bin_call (bins ! i)) r))
                                 else Inl TypeError)
                (enumerate 0 cs))"

fun active_predicate ::
  "sqllib \<Rightarrow> predicate_fn \<Rightarrow> clause_pred option \<Rightarrow> error + sqlexpr option arg" where
  "active_predicate L PointPredicate p = Inr (One (map_option cp_expr p))"
| "active_predicate L (IntervalPredicate b) None = Inr (Arr [])"
| "active_predicate L (IntervalPredicate b) (Some p) =
     (case cp_range p of
        None \<Rightarrow> Inl TypeError
      | Some r \<Rightarrow> Inr (One (Some (lib_isBetween L (active_name 0) (map (bin_call b) r)))))"
| "active_predicate L (IntervalsPredicate bs) None = Inr (Arr [])"
| "active_predicate L (IntervalsPredicate bs) (Some p) =
     (case cp_children p of
        None \<Rightarrow> Inl TypeError
      | Some cs \<Rightarrow>
          (case children_between L bs cs of
             Inl e \<Rightarrow> Inl e
           | Inr xs \<Rightarrow> Inr (One (Some (lib_and L xs)))))"

subsection \<open>DataCubeInfo\<close>

text \<open>
  The fields the constructor of \<open>DataCubeInfo\<close> sets. It destructures
  \<open>{ table, create, active, select }\<close>: the \<open>id\<close> that \<open>dataCubeInfo\<close> passes is not
  stored. \<open>result\<close> is the promise of a coordinator request, given by its position in
  the coordinator's log.
\<close>

record cube_info =
  ci_table :: string
  ci_create :: string
  ci_result :: "nat option"
  ci_active :: active_columns
  ci_select :: addr
  ci_skip :: bool

text \<open>
  \<open>query(predicate)\<close>: \<open>this.select.clone().where(this.active.predicate(predicate))\<close>.
  On a \<open>select\<close> that is a set operation the clone has no \<open>where\<close>.
\<close>

definition DataCubeInfo_query ::
  "sqllib \<Rightarrow> heap \<Rightarrow> cube_info \<Rightarrow> clause_pred option \<Rightarrow> error + (addr \<times> heap)" where
  "DataCubeInfo_query L h info p =
     (case obj_at h (ci_select info) of
        Some (Query b cf) \<Rightarrow>
          (case Query_clone h b of (c, h1) \<Rightarrow>
             (case ac_predicate (ci_active info) of
                None \<Rightarrow> Inl TypeError
              | Some pf \<Rightarrow>
                  (case active_predicate L pf p of
                     Inl e \<Rightarrow> Inl e
                   | Inr w \<Rightarrow>
                       (case Query_where h1 c [w] of
                          Inl e \<Rightarrow> Inl e
                        | Inr h2 \<Rightarrow> Inr (c, h2)))))
      | _ \<Rightarrow> Inl TypeError)"

subsection \<open>dataCubeInfo\<close>

text \<open>What \<open>indexColumns(client)\<close> returns for an indexable client.\<close>

record index_cols =
  ic_dims :: "string list"
  ic_aggr :: "select_elem list"
  ic_aux :: "(string \<times> colspec) list"

text \<open>Sequencing of fallible steps.\<close>

definition andThen :: "error + 'a \<Rightarrow> ('a \<Rightarrow> error + 'b) \<Rightarrow> error + 'b" where
  "andThen r f = (case r of Inl e \<Rightarrow> Inl e | Inr x \<Rightarrow> f x)"

text \<open>\<open>(fnv_hash(create) >>> 0).toString(16)\<close>\<close>

definition cube_id :: "sqllib \<Rightarrow> string \<Rightarrow> string" where
  "cube_id L create = digits 16 (nat (lib_fnv_hash L create mod 2 ^ 32))"

text \<open>\<open>query.query.orderby = []\<close>\<close>

definition clear_orderby :: "heap \<Rightarrow> addr \<Rightarrow> error + heap" where
  "clear_orderby h a =
     (case obj_at h a of
        Some (Query b cf) \<Rightarrow> Inr (h[a := Query (b\<lparr>q_orderby := []\<rparr>) cf])
      | _ \<Rightarrow> Inl TypeError)"

text \<open>
  \<open>Query.select(dims, aggr).from(table).groupby(dims).orderby(order)\<close> on a new Query.
\<close>

definition cube_select ::
  "sqllib \<Rightarrow> heap \<Rightarrow> index_cols \<Rightarrow> string \<Rightarrow> sqlexpr list \<Rightarrow> error + (addr \<times> heap)" where
  "cube_select L h ic table order =
     (case new_Query h of (s, h0) \<Rightarrow>
        andThen (Query_select L h0 s [Arr (map SStr (ic_dims ic)), Arr (ic_aggr ic)]) (\<lambda>h1.
        andThen (Query_from L h1 s [One (FStr table)]) (\<lambda>h2.
        andThen (Query_groupby L h2 s [Arr (map CStr (ic_dims ic))]) (\<lambda>h3.
        andThen (orderby_add L h3 s [Arr (map CExpr order)]) (\<lambda>h4.
        Inr (s, h4))))))"

definition dataCubeInfo ::
  "sqllib \<Rightarrow> heap \<Rightarrow> addr \<Rightarrow> active_columns \<Rightarrow> index_cols \<Rightarrow> string
     \<Rightarrow> error + (cube_info \<times> heap)" where
  "dataCubeInfo L h clientQuery active indexCols schema =
     (case ac_columns active of
        None \<Rightarrow> Inl TypeError
      | Some columns \<Rightarrow>
          andThen (Query_select L h clientQuery
                     [One (SObj (spread (map (\<lambda>(k, e). (k, CExpr e)) columns)
                                   (ic_aux indexCols)))]) (\<lambda>h1.
          andThen (Query_groupby L h1 clientQuery [Arr (map (\<lambda>kv. CStr (fst kv)) columns)]) (\<lambda>h2.
          andThen (subqueries h2 clientQuery) (\<lambda>(subs, h3).
          andThen (case subs of
                     [] \<Rightarrow> Inr h3
                   | subq # others \<Rightarrow>
                       subqueryPushdown L h3 subq
                         (concat (map (\<lambda>kv. sx_columns (snd kv)) columns))) (\<lambda>h4.
          andThen (orderby_get h4 clientQuery) (\<lambda>order.
          andThen (clear_orderby h4 clientQuery) (\<lambda>h5.
          andThen (toString L h5 clientQuery) (\<lambda>create.
            let id = cube_id L create;
                table = schema @ ''.cube_'' @ id
            in andThen (cube_select L h5 indexCols table order) (\<lambda>(select, h6).
                 Inr (\<lparr>ci_table = table, ci_create = create, ci_result = None,
                        ci_active = active, ci_select = select, ci_skip = False\<rparr>,
                      h6))))))))))"

section \<open>The indexer (class DataCubeIndexer)\<close>

text \<open>
  A value of the map \<open>indexes\<close>, which is also what \<open>index\<close> returns: a
  \<open>DataCubeInfo\<close>, the constant \<open>Skip\<close>, or \<open>null\<close>.
\<close>

datatype index_entry = Cube cube_info | Skip | Null

text \<open>
  The fields of the indexer, together with the two things its methods act on: the store
  of query objects, and the coordinator, seen as the log of the requests given to
  \<open>mc.exec\<close> (each request a list of statements). The promise of a request is its
  position in the log.
\<close>

record 'c indexer =
  ix_indexes :: "'c \<Rightarrow> index_entry option"
  ix_active :: "active_columns option"
  ix_schema :: string
  ix_enabled :: bool
  store :: heap
  coordinator_log :: "string list list"

text \<open>
  The collaborators of \<open>index\<close>: \<open>indexColumns(client)\<close> (\<open>None\<close> for a client that is
  not indexable), \<open>selection.skip(client, clause)\<close>, and
  \<open>client.query(selection.remove(source).predicate(client))\<close>, which builds the client's
  query in the store.
\<close>

record ('c, 's) collab =
  indexColumns :: "'c \<Rightarrow> index_cols option"
  selection_skip :: "'s \<Rightarrow> 'c \<Rightarrow> clause \<Rightarrow> bool"
  client_query :: "'c \<Rightarrow> 's \<Rightarrow> jsval \<Rightarrow> heap \<Rightarrow> addr \<times> heap"

text \<open>The constructor, with its options \<open>schema\<close> and \<open>enabled\<close>.\<close>

definition new_indexer :: "string \<Rightarrow> bool \<Rightarrow> heap \<Rightarrow> string list list \<Rightarrow> 'c indexer" where
  "new_indexer schema enabled h lg =
     \<lparr>ix_indexes = Map.empty, ix_active = None, ix_schema = schema, ix_enabled = enabled,
      store = h, coordinator_log = lg\<rparr>"

definition clear :: "'c indexer \<Rightarrow> 'c indexer" where
  "clear ix = ix\<lparr>ix_indexes := Map.empty, ix_active := None\<rparr>"

definition set_enabled :: "'c indexer \<Rightarrow> bool \<Rightarrow> 'c indexer" where
  "set_enabled ix state =
     (if ix_enabled ix \<noteq> state
      then (if \<not> state then clear ix else ix)\<lparr>ix_enabled := state\<rparr>
      else ix)"

definition set_schema :: "'c indexer \<Rightarrow> string \<Rightarrow> 'c indexer" where
  "set_schema ix schema =
     (if ix_schema ix \<noteq> schema then (clear ix)\<lparr>ix_schema := schema\<rparr> else ix)"

text \<open>\<open>mc.exec(request)\<close>: the request is logged and its promise returned.\<close>

definition exec :: "'c indexer \<Rightarrow> string list \<Rightarrow> nat \<times> 'c indexer" where
  "exec ix request =
     (length (coordinator_log ix), ix\<lparr>coordinator_log := coordinator_log ix @ [request]\<rparr>)"

definition drop_statement :: "string \<Rightarrow> string" where
  "drop_statement schema = ''DROP SCHEMA IF EXISTS '' @ dq @ schema @ dq @ '' CASCADE''"

definition dropIndexTables :: "'c indexer \<Rightarrow> nat \<times> 'c indexer" where
  "dropIndexTables ix = exec (clear ix) [drop_statement (ix_schema ix)]"

text \<open>
  The part of \<open>index\<close> after the cache lookups: the client has no entry yet. When
  \<open>dataCubeInfo\<close> throws, the store is kept as \<open>client.query\<close> left it.
\<close>

definition build_entry ::
  "sqllib \<Rightarrow> ('c, 's) collab \<Rightarrow> 'c indexer \<Rightarrow> active_columns \<Rightarrow> 'c \<Rightarrow> 's \<Rightarrow> clause
     \<Rightarrow> (error + index_entry) \<times> 'c indexer" where
  "build_entry L E ix active client selection activeClause =
     (case indexColumns E client of
        None \<Rightarrow> (Inr Null, ix)
      | Some indexCols \<Rightarrow>
          if selection_skip E selection client activeClause then (Inr Skip, ix)
          else
            (case client_query E client selection (cl_source activeClause) (store ix) of
               (q, h) \<Rightarrow>
                 (case dataCubeInfo L h q active indexCols (ix_schema ix) of
                    Inl e \<Rightarrow> (Inl e, ix\<lparr>store := h\<rparr>)
                  | Inr (info, h') \<Rightarrow>
                      (case exec (ix\<lparr>store := h'\<rparr>)
                              [''CREATE SCHEMA IF NOT EXISTS '' @ ix_schema ix,
                               lib_create L (ci_table info) (ci_create info)] of
                         (promise, ix') \<Rightarrow>
                           (Inr (Cube (info\<lparr>ci_result := Some promise\<rparr>)), ix')))))"

definition index ::
  "sqllib \<Rightarrow> ('c, 's) collab \<Rightarrow> 'c indexer \<Rightarrow> 'c \<Rightarrow> 's \<Rightarrow> clause
     \<Rightarrow> (error + index_entry) \<times> 'c indexer" where
  "index L E ix client selection activeClause =
     (if \<not> ix_enabled ix then (Inr Null, ix)
      else
        let source = cl_source activeClause in
        if \<not> truthy source then (Inr Null, ix)
        else
          let ix1 = (case ix_active ix of
                       None \<Rightarrow> ix
                     | Some a \<Rightarrow> if \<not> strict_eq (ac_source a) source then clear ix else ix)
          in
          if ix_active ix \<noteq> None \<and> map_option ac_source (ix_active ix1) = Some JNull
          then (Inr Null, ix1)
          else
            (case (case ix_active ix1 of
                     Some a \<Rightarrow> Inr (a, ix1, False)
                   | None \<Rightarrow>
                       (case activeColumns L activeClause of
                          Inl e \<Rightarrow> Inl e
                        | Inr a \<Rightarrow> Inr (a, ix1\<lparr>ix_active := Some a\<rparr>, ac_source a = JNull))) of
               Inl e \<Rightarrow> (Inl e, ix1)
             | Inr (active, ix2, unindexable) \<Rightarrow>
                 if unindexable then (Inr Null, ix2)
                 else
                   (case ix_indexes ix2 client of
                      Some entry \<Rightarrow> (Inr entry, ix2)
                    | None \<Rightarrow>
                        (case build_entry L E ix2 active client selection activeClause of
                           (Inl e, ix3) \<Rightarrow> (Inl e, ix3)
                         | (Inr info, ix3) \<Rightarrow>
                             (Inr info, ix3\<lparr>ix_indexes := (ix_indexes ix3)(client \<mapsto> info)\<rparr>)))))"

subsection \<open>Histories of an indexer\<close>

text \<open>
  The states an indexer reaches from its constructor through its public methods, while
  clients and other components change the store and use the coordinator.
\<close>

inductive reachable :: "sqllib \<Rightarrow> ('c, 's) collab \<Rightarrow> 'c indexer \<Rightarrow> bool" for L E where
  r_new: "reachable L E (new_indexer schema enabled h lg)"
| r_enabled: "reachable L E ix \<Longrightarrow> reachable L E (set_enabled ix state)"
| r_schema: "reachable L E ix \<Longrightarrow> reachable L E (set_schema ix schema)"
| r_drop: "reachable L E ix \<Longrightarrow> reachable L E (snd (dropIndexTables ix))"
| r_clear: "reachable L E ix \<Longrightarrow> reachable L E (clear ix)"
| r_index: "reachable L E ix \<Longrightarrow> reachable L E (snd (index L E ix client selection cl))"
| r_world: "reachable L E ix \<Longrightarrow> reachable L E (ix\<lparr>store := h, coordinator_log := lg\<rparr>)"





section \<open>An instance for concrete runs\<close>

text \<open>
  Modelled from the spec: the 32-bit FNV-1a hash over the bytes of the text (the module
  util/hash.js with \<open>fnv_hash\<close> is not among the sources).
\<close>

definition fnv1a_32 :: "string \<Rightarrow> int" where
  "fnv1a_32 s =
     foldl (\<lambda>h c. (xor h (of_char c) * 16777619) mod 2 ^ 32) 2166136261 s"

text \<open>
  An instance of the imported SQL functions: a column and a table print as their
  double-quoted names, \<open>create\<close> makes a persistent table.
\<close>

definition example_lib :: sqllib where
  "example_lib =
     \<lparr>lib_column = (\<lambda>c. \<lparr>sx_text = dq @ c @ dq, sx_columns = [c], sx_ref = True,
                           sx_column = Some c, sx_table = None\<rparr>),
      lib_relation = (\<lambda>t. \<lparr>sx_text = dq @ t @ dq, sx_columns = [], sx_ref = True,
                             sx_column = None, sx_table = Some t\<rparr>),
      lib_number = (\<lambda>r. []),
      lib_isBetween = (\<lambda>c xs. \<lparr>sx_text = ''('' @ dq @ c @ dq @ '' BETWEEN ''
                                    @ join '' AND '' (map sx_text xs) @ '')'',
                                  sx_columns = [c], sx_ref = False, sx_column = None,
                                  sx_table = None\<rparr>),
      lib_and = (\<lambda>xs. \<lparr>sx_text = ''('' @ join '' AND '' (map sx_text xs) @ '')'',
                          sx_columns = concat (map sx_columns xs), sx_ref = False,
                          sx_column = None, sx_table = None\<rparr>),
      lib_create = (\<lambda>name q. ''CREATE TABLE IF NOT EXISTS '' @ name @ '' AS '' @ q),
      lib_fnv_hash = fnv1a_32\<rparr>"

text \<open>
  Scenario S1: a point clause over the column \<open>category\<close>, and a client with the
  dimension \<open>year\<close> and the aggregate \<open>SUM("sales") AS s\<close>.
\<close>

definition category_pred :: clause_pred where
  "category_pred =
     ClausePred
       \<lparr>sx_text = dq @ ''category'' @ dq @ '' = 1'', sx_columns = [''category''],
        sx_ref = False, sx_column = None, sx_table = None\<rparr>
       (lib_column example_lib ''category'') None None"

definition point_clause :: "jsval \<Rightarrow> clause" where
  "point_clause src =
     \<lparr>cl_source = src,
      cl_meta = Some \<lparr>m_type = ''point'', m_scales = None, m_bin = None, m_pixelSize = None\<rparr>,
      cl_predicate = Some category_pred\<rparr>"

definition point_active :: "jsval \<Rightarrow> active_columns" where
  "point_active src =
     \<lparr>ac_source = src,
      ac_columns = Some [(''category'', lib_column example_lib ''category'')],
      ac_predicate = Some PointPredicate\<rparr>"

definition sum_sales :: sqlexpr where
  "sum_sales = \<lparr>sx_text = ''SUM('' @ dq @ ''sales'' @ dq @ '')'', sx_columns = [''sales''],
                sx_ref = False, sx_column = None, sx_table = None\<rparr>"

definition sales_cols :: index_cols where
  "sales_cols = \<lparr>ic_dims = [''year''], ic_aggr = [SObj [(''s'', CExpr sum_sales)]],
                 ic_aux = []\<rparr>"

text \<open>
  The client's query \<open>SELECT "year", SUM("sales") AS "s" FROM ... GROUP BY "year"\<close>
  over the given FROM list.
\<close>

definition sales_query :: "from_item list \<Rightarrow> obj" where
  "sales_query fs =
     Query (new_body\<lparr>q_select := [(Some ''year'', lib_column example_lib ''year''),
                                    (Some ''s'', sum_sales)],
                      q_from := fs,
                      q_groupby := [lib_column example_lib ''year'']\<rparr>) None"

text \<open>A subquery \<open>SELECT "year", "sales" FROM "<table>"\<close>.\<close>

definition table_query :: "string \<Rightarrow> obj" where
  "table_query t =
     Query (new_body\<lparr>q_select := [(Some ''year'', lib_column example_lib ''year''),
                                    (Some ''sales'', lib_column example_lib ''sales'')],
                      q_from := [(Some t, FromExpr (lib_relation example_lib t))]\<rparr>) None"

text \<open>
  A store in which the client's query (at address 0) reads from two subqueries, over the
  tables \<open>a\<close> (address 1) and \<open>b\<close> (address 2).
\<close>

definition two_subqueries :: heap where
  "two_subqueries =
     [sales_query [(None, FromQuery 1), (None, FromQuery 2)],
      table_query ''a'', table_query ''b'']"

text \<open>
  Collaborators: client 0 is indexable and queries the table \<open>sales\<close>; every other
  client is not indexable; no client is skipped.
\<close>

definition example_collab :: "(nat, unit) collab" where
  "example_collab =
     \<lparr>indexColumns = (\<lambda>c. if c = 0 then Some sales_cols else None),
      selection_skip = (\<lambda>s c cl. False),
      client_query = (\<lambda>c s src h.
         alloc h (sales_query [(Some ''sales'', FromExpr (lib_relation example_lib ''sales''))]))\<rparr>"

definition fresh_indexer :: "nat indexer" where
  "fresh_indexer = new_indexer ''mosaic'' True [] []"

text \<open>The client's query over the table \<open>sales\<close>, as a store of its own.\<close>

definition sales_store :: heap where
  "sales_store = [sales_query [(Some ''sales'', FromExpr (lib_relation example_lib ''sales''))]]"

text \<open>
  The creation query of the cube for that client under the point clause:
  \<open>SELECT "year", SUM("sales") AS "s", "category" FROM "sales" GROUP BY "year", "category"\<close>.
\<close>

definition sales_create :: string where
  "sales_create =
     ''SELECT '' @ dq @ ''year'' @ dq @ '', SUM('' @ dq @ ''sales'' @ dq @ '') AS '' @ dq
     @ ''s'' @ dq @ '', '' @ dq @ ''category'' @ dq @ '' FROM '' @ dq @ ''sales'' @ dq
     @ '' GROUP BY '' @ dq @ ''year'' @ dq @ '', '' @ dq @ ''category'' @ dq"

text \<open>
  The creation query over the two subqueries: the first subquery selects \<open>category\<close>,
  the second does not.
\<close>

definition joined_create :: string where
  "joined_create =
     ''SELECT '' @ dq @ ''year'' @ dq @ '', SUM('' @ dq @ ''sales'' @ dq @ '') AS '' @ dq
     @ ''s'' @ dq @ '', '' @ dq @ ''category'' @ dq
     @ '' FROM (SELECT '' @ dq @ ''year'' @ dq @ '', '' @ dq @ ''sales'' @ dq @ '', '' @ dq
     @ ''category'' @ dq @ '' FROM '' @ dq @ ''a'' @ dq
     @ ''), (SELECT '' @ dq @ ''year'' @ dq @ '', '' @ dq @ ''sales'' @ dq
     @ '' FROM '' @ dq @ ''b'' @ dq @ '')''
     @ '' GROUP BY '' @ dq @ ''year'' @ dq @ '', '' @ dq @ ''category'' @ dq"

section \<open>Properties of the bin function synthesizer\<close>

lemma digits_small: "b < 2 \<or> n < b \<Longrightarrow>
    digits b n = [''0123456789abcdefghijklmnopqrstuvwxyz'' ! n]"
  by (simp add: digits.simps)

lemma digits_large: "\<not> (b < 2 \<or> n < b) \<Longrightarrow>
    digits b n = digits b (n div b) @ [''0123456789abcdefghijklmnopqrstuvwxyz'' ! (n mod b)]"
  by (subst digits.simps) simp






section \<open>Properties of the cube planner\<close>

lemma cube_select_template:
  assumes "cube_select L h ic table order = Inr (s, h')"
  shows "s = length h \<and> length h' = Suc (length h) \<and> take (length h) h' = h
     \<and> (\<exists>b. obj_at h' s = Some (Query b None) \<and> q_where b = [])"
  using assms
  by (auto simp: cube_select_def new_Query_def alloc_def andThen_def Query_select_def
      Query_from_def Query_groupby_def orderby_add_def obj_at_def new_body_def
      split: sum.splits option.splits obj.splits if_splits)

lemma dataCubeInfo_table:
  assumes "dataCubeInfo L h q a ic schema = Inr (info, h')"
  shows "ci_table info = schema @ ''.cube_'' @ cube_id L (ci_create info)"
  using assms
  by (auto simp: dataCubeInfo_def andThen_def Let_def
      split: option.splits sum.splits prod.splits list.splits)

lemma dataCubeInfo_template:
  assumes "dataCubeInfo L h q a ic schema = Inr (info, h')"
  shows "\<exists>b. obj_at h' (ci_select info) = Some (Query b None) \<and> q_where b = []"
  using assms
  by (auto simp: dataCubeInfo_def andThen_def Let_def
      split: option.splits sum.splits prod.splits list.splits
      dest!: cube_select_template)

lemma DataCubeInfo_query_eq:
  assumes sel: "obj_at h (ci_select info) = Some (Query b cf)"
    and pf: "ac_predicate (ci_active info) = Some pf"
    and w: "active_predicate L pf p = Inr w"
  shows "DataCubeInfo_query L h info p =
     Inr (length h, h @ [Query (b\<lparr>q_where := q_where b @ List.map_filter (\<lambda>x. x) (flat [w])\<rparr>) None])"
  using assms
  by (simp add: DataCubeInfo_query_def Query_clone_def alloc_def Query_where_def obj_at_def)


subsection \<open>Concrete runs of the planner\<close>

lemmas model_defs =
  example_lib_def point_clause_def point_active_def category_pred_def activeColumns_def
  fromEntries_def spread_def dataCubeInfo_def andThen_def Query_select_def select_update_def
  flat_def unquote_def isDoubleQuoted_def Query_groupby_def as_columns_def subqueries_def
  ctes_of_def cte_lookup_def table_key_def Object_prototype_keys_def subqueryPushdown_def
  visit_def orderby_get_def clear_orderby_def toString_def print_query_def select_sql_def
  isColumnRefFor_def str_truthy_def from_sql_def clauses_sql_def list_sql_def sample_sql_def
  limit_sql_def isFinite_def template_string_def cube_id_def cube_select_def new_Query_def
  alloc_def Query_from_def orderby_add_def obj_at_def sales_query_def sales_cols_def
  sum_sales_def new_body_def dq_def Let_def List.map_filter_def table_query_def
  two_subqueries_def sales_store_def

lemma sales_create_hash: "fnv1a_32 sales_create = 3479373600"
  by code_simp

lemma joined_create_hash: "fnv1a_32 joined_create = 1158370697"
  by code_simp

lemmas create_hashes =
  sales_create_hash [unfolded sales_create_def dq_def append.simps]
  joined_create_hash [unfolded joined_create_def dq_def append.simps]

lemma point_activeColumns: "activeColumns example_lib (point_clause src) = Inr (point_active src)"
  by (simp add: model_defs)

lemma sales_plan:
  "\<exists>info h. dataCubeInfo example_lib sales_store 0 (point_active src) sales_cols ''mosaic''
       = Inr (info, h)
     \<and> ci_table info = ''mosaic.cube_cf630720'' \<and> ci_create info = sales_create
     \<and> ci_active info = point_active src"
  by (simp add: model_defs sales_create_def create_hashes digits_small digits_large)

lemma joined_plan:
  "\<exists>info h. dataCubeInfo example_lib two_subqueries 0 (point_active src) sales_cols ''mosaic''
       = Inr (info, h)
     \<and> ci_table info = ''mosaic.cube_450b5589'' \<and> ci_create info = joined_create
     \<and> map (\<lambda>ob. case ob of Query b cf \<Rightarrow> map fst (q_select b) | _ \<Rightarrow> []) h =
         [[Some ''year'', Some ''s'', Some ''category''],
          [Some ''year'', Some ''sales'', Some ''category''],
          [Some ''year'', Some ''sales''],
          [Some ''year'', Some ''s'']]"
  by (simp add: model_defs joined_create_def create_hashes digits_small digits_large)


subsection \<open>Results of the planner\<close>

lemma dataCubeInfo_active:
  assumes "dataCubeInfo L h q a ic schema = Inr (info, h')"
  shows "ci_active info = a"
  using assms
  by (auto simp: dataCubeInfo_def andThen_def Let_def
      split: option.splits sum.splits prod.splits list.splits)

text \<open>
  C1, on a client query that reads from two subqueries. The planner returns; both
  subqueries are subqueries of the augmented query and have a non-empty FROM list; the
  first has the base column \<open>category\<close> of the active column added to its SELECT list,
  the second has not, and the creation query selects \<open>category\<close> over both.
\<close>

theorem pushdown_first_subquery_only:
  "\<exists>info h. dataCubeInfo example_lib two_subqueries 0 (point_active (JStr ''S'')) sales_cols
         ''mosaic'' = Inr (info, h)
     \<and> ci_create info = joined_create
     \<and> map_sum id fst (subqueries h 0) = Inr [SubQuery 1, SubQuery 2]
     \<and> (\<exists>b cf. obj_at h 1 = Some (Query b cf) \<and> q_from b \<noteq> []
           \<and> map fst (q_select b) = [Some ''year'', Some ''sales'', Some ''category''])
     \<and> (\<exists>b cf. obj_at h 2 = Some (Query b cf) \<and> q_from b \<noteq> []
           \<and> map fst (q_select b) = [Some ''year'', Some ''sales''])"
  by (simp add: model_defs joined_create_def create_hashes digits_small digits_large)

text \<open>
  C5. The select template of a cube built by the planner is a Query without WHERE terms.
  In any store that holds the template as built, \<open>query(p)\<close> returns a new Query object,
  the copy of the template with exactly the terms of \<open>active.predicate(p)\<close> as its WHERE
  list, and only adds that object to the store (whenever \<open>active.predicate(p)\<close> returns). A
  second call again returns the copy of the template with the terms of its own predicate
  only, and leaves the template and the first result as they are.
\<close>

theorem query_keeps_template:
  assumes built: "dataCubeInfo L h0 q a ic schema = Inr (info, h)"
    and pf: "ac_predicate a = Some pf"
    and w1: "active_predicate L pf p1 = Inr w1"
    and w2: "active_predicate L pf p2 = Inr w2"
    and later: "obj_at hx (ci_select info) = obj_at h (ci_select info)"
  shows "\<exists>b. obj_at h (ci_select info) = Some (Query b None) \<and> q_where b = []
     \<and> DataCubeInfo_query L hx info p1 =
         Inr (length hx,
              hx @ [Query (b\<lparr>q_where := List.map_filter (\<lambda>x. x) (flat [w1])\<rparr>) None])
     \<and> DataCubeInfo_query L
           (hx @ [Query (b\<lparr>q_where := List.map_filter (\<lambda>x. x) (flat [w1])\<rparr>) None]) info p2 =
         Inr (Suc (length hx),
              hx @ [Query (b\<lparr>q_where := List.map_filter (\<lambda>x. x) (flat [w1])\<rparr>) None,
                    Query (b\<lparr>q_where := List.map_filter (\<lambda>x. x) (flat [w2])\<rparr>) None])"
proof -
  from dataCubeInfo_template [OF built] obtain b
    where b: "obj_at h (ci_select info) = Some (Query b None)" and nowhere: "q_where b = []"
    by auto
  have act: "ac_predicate (ci_active info) = Some pf"
    using dataCubeInfo_active [OF built] pf by simp
  have sel: "obj_at hx (ci_select info) = Some (Query b None)"
    using later b by simp
  let ?r1 = "Query (b\<lparr>q_where := List.map_filter (\<lambda>x. x) (flat [w1])\<rparr>) None"
  have first: "DataCubeInfo_query L hx info p1 = Inr (length hx, hx @ [?r1])"
    using DataCubeInfo_query_eq [OF sel act w1] nowhere by simp
  have sel': "obj_at (hx @ [?r1]) (ci_select info) = Some (Query b None)"
    using sel by (auto simp: obj_at_def nth_append split: if_splits)
  have second: "DataCubeInfo_query L (hx @ [?r1]) info p2 =
      Inr (Suc (length hx),
           hx @ [?r1, Query (b\<lparr>q_where := List.map_filter (\<lambda>x. x) (flat [w2])\<rparr>) None])"
    using DataCubeInfo_query_eq [OF sel' act w2] nowhere by simp
  show ?thesis
    using b nowhere first second by blast
qed

theorem query_keeps_template_witness:
  "\<exists>info h b. dataCubeInfo example_lib sales_store 0 (point_active (JStr ''S'')) sales_cols
         ''mosaic'' = Inr (info, h)
     \<and> obj_at h (ci_select info) = Some (Query b None) \<and> q_where b = []
     \<and> DataCubeInfo_query example_lib h info (Some category_pred) =
         Inr (length h, h @ [Query (b\<lparr>q_where := [cp_expr category_pred]\<rparr>) None])
     \<and> DataCubeInfo_query example_lib
           (h @ [Query (b\<lparr>q_where := [cp_expr category_pred]\<rparr>) None]) info None =
         Inr (Suc (length h),
              h @ [Query (b\<lparr>q_where := [cp_expr category_pred]\<rparr>) None,
                   Query (b\<lparr>q_where := []\<rparr>) None])"
proof -
  from sales_plan [of "JStr ''S''"] obtain info h
    where built: "dataCubeInfo example_lib sales_store 0 (point_active (JStr ''S'')) sales_cols
         ''mosaic'' = Inr (info, h)"
    by auto
  have pf: "ac_predicate (point_active (JStr ''S'')) = Some PointPredicate"
    by (simp add: point_active_def)
  have w1: "active_predicate example_lib PointPredicate (Some category_pred)
      = Inr (One (Some (cp_expr category_pred)))"
    by simp
  have w2: "active_predicate example_lib PointPredicate None = Inr (One None)"
    by simp
  from query_keeps_template [OF built pf w1 w2 refl]
  show ?thesis
    using built by (auto simp: flat_def List.map_filter_def)
qed

text \<open>
  C8. Two runs of the planner with the same schema that produce the same creation text
  produce the same table name \<open><schema>.cube_<id>\<close>, whose \<open>id\<close> is the hexadecimal form
  of the unsigned 32-bit hash of the creation text and of nothing else.
\<close>

theorem cube_name_from_create:
  assumes one: "dataCubeInfo L h1 q1 a1 ic1 schema = Inr (i1, h1')"
    and two: "dataCubeInfo L h2 q2 a2 ic2 schema = Inr (i2, h2')"
    and same: "ci_create i1 = ci_create i2"
  shows "ci_table i1 = ci_table i2
     \<and> ci_table i1 = schema @ ''.cube_'' @ cube_id L (ci_create i1)
     \<and> ci_table i2 = schema @ ''.cube_'' @ cube_id L (ci_create i2)
     \<and> cube_id L (ci_create i1) = cube_id L (ci_create i2)"
  using dataCubeInfo_table [OF one] dataCubeInfo_table [OF two] same by simp

lemma sales_plan_elsewhere:
  "\<exists>info h. dataCubeInfo example_lib (table_query ''a'' # sales_store) 1 (point_active src)
         sales_cols ''mosaic'' = Inr (info, h)
     \<and> ci_create info = sales_create"
  by (simp add: model_defs sales_create_def create_hashes digits_small digits_large)

theorem cube_name_from_create_witness:
  "\<exists>i1 h1 i2 h2.
     dataCubeInfo example_lib sales_store 0 (point_active (JStr ''S'')) sales_cols ''mosaic''
       = Inr (i1, h1)
     \<and> dataCubeInfo example_lib (table_query ''a'' # sales_store) 1 (point_active (JStr ''T''))
          sales_cols ''mosaic'' = Inr (i2, h2)
     \<and> ci_create i1 = ci_create i2
     \<and> ci_table i1 = ''mosaic.cube_cf630720'' \<and> ci_table i2 = ''mosaic.cube_cf630720''"
proof -
  from sales_plan [of "JStr ''S''"] obtain i1 h1
    where one: "dataCubeInfo example_lib sales_store 0 (point_active (JStr ''S'')) sales_cols
         ''mosaic'' = Inr (i1, h1)"
      and t1: "ci_table i1 = ''mosaic.cube_cf630720''" and c1: "ci_create i1 = sales_create"
    by auto
  from sales_plan_elsewhere [of "JStr ''T''"] obtain i2 h2
    where two: "dataCubeInfo example_lib (table_query ''a'' # sales_store) 1
         (point_active (JStr ''T'')) sales_cols ''mosaic'' = Inr (i2, h2)"
      and c2: "ci_create i2 = sales_create"
    by auto
  have same: "ci_create i1 = ci_create i2"
    using c1 c2 by simp
  from cube_name_from_create [OF one two same]
  show ?thesis
    using one two same t1 by auto
qed

section \<open>Properties of the indexer\<close>

lemma build_entry_frame:
  "build_entry L E ix a c s cl = (r, ix') \<Longrightarrow>
     ix_indexes ix' = ix_indexes ix \<and> ix_active ix' = ix_active ix
     \<and> ix_enabled ix' = ix_enabled ix \<and> ix_schema ix' = ix_schema ix"
  by (auto simp: build_entry_def exec_def split: option.splits if_splits prod.splits sum.splits)

lemma truthy_strict_eq: "truthy x \<Longrightarrow> strict_eq x x"
  by (cases x) auto

lemma activeColumns_source:
  "activeColumns L cl = Inr a \<Longrightarrow> ac_source a = JNull \<or> ac_source a = cl_source cl"
  by (auto simp: activeColumns_def not_indexable_def Let_def
      split: option.splits if_splits sum.splits)

lemma index_falsy:
  "ix_enabled ix \<Longrightarrow> \<not> truthy (cl_source cl) \<Longrightarrow> index L E ix c s cl = (Inr Null, ix)"
  by (simp add: index_def)

text \<open>
  C10. On an enabled indexer, a clause whose source is falsy (\<open>null\<close>, \<open>undefined\<close>,
  \<open>0\<close>, the empty string, \<open>false\<close>, NaN) makes \<open>index\<close> return \<open>null\<close> and leave the
  indexer, with its map \<open>indexes\<close> and its cached \<open>active\<close>, as it was.
\<close>

theorem index_falsy_source:
  "ix_enabled ix \<Longrightarrow> \<not> truthy (cl_source cl) \<Longrightarrow> index L E ix c s cl = (Inr Null, ix)"
  by (rule index_falsy)

lemma index_unfold_active:
  assumes en: "ix_enabled ix" and tr: "truthy (cl_source cl)"
    and act: "ix_active ix = Some a" and same: "strict_eq (ac_source a) (cl_source cl)"
  shows "index L E ix c s cl =
     (case ix_indexes ix c of
        Some entry \<Rightarrow> (Inr entry, ix)
      | None \<Rightarrow>
          (case build_entry L E ix a c s cl of
             (Inl e, ix3) \<Rightarrow> (Inl e, ix3)
           | (Inr info, ix3) \<Rightarrow> (Inr info, ix3\<lparr>ix_indexes := (ix_indexes ix3)(c \<mapsto> info)\<rparr>)))"
proof -
  have "ac_source a \<noteq> JNull"
    using same tr by (cases "ac_source a"; cases "cl_source cl") auto
  then show ?thesis
    using en tr act same by (simp add: index_def Let_def)
qed

lemma index_unfold_fresh:
  assumes en: "ix_enabled ix" and tr: "truthy (cl_source cl)"
    and act: "ix_active ix = None"
  shows "index L E ix c s cl =
     (case activeColumns L cl of
        Inl e \<Rightarrow> (Inl e, ix)
      | Inr a \<Rightarrow>
          if ac_source a = JNull then (Inr Null, ix\<lparr>ix_active := Some a\<rparr>)
          else
            (case ix_indexes ix c of
               Some entry \<Rightarrow> (Inr entry, ix\<lparr>ix_active := Some a\<rparr>)
             | None \<Rightarrow>
                 (case build_entry L E (ix\<lparr>ix_active := Some a\<rparr>) a c s cl of
                    (Inl e, ix3) \<Rightarrow> (Inl e, ix3)
                  | (Inr info, ix3) \<Rightarrow>
                      (Inr info, ix3\<lparr>ix_indexes := (ix_indexes ix3)(c \<mapsto> info)\<rparr>))))"
  using en tr act by (simp add: index_def Let_def split: sum.splits)

lemma index_unfold_changed:
  assumes en: "ix_enabled ix" and tr: "truthy (cl_source cl)"
    and act: "ix_active ix = Some a" and diff: "\<not> strict_eq (ac_source a) (cl_source cl)"
  shows "index L E ix c s cl = index L E (clear ix) c s cl"
  using en tr act diff by (simp add: index_def Let_def clear_def)


lemma index_post_fresh:
  assumes en: "ix_enabled ix" and tr: "truthy (cl_source cl)"
    and act: "ix_active ix = None"
    and first: "index L E ix c s cl = (Inr r, ix1)"
  shows "ix_enabled ix1 \<and>
     ((r = Null \<and> (\<exists>a. activeColumns L cl = Inr a \<and> ac_source a = JNull
                      \<and> ix_active ix1 = Some a))
      \<or> (\<exists>a. ix_active ix1 = Some a \<and> ac_source a = cl_source cl
               \<and> ix_indexes ix1 c = Some r))"
proof (cases "activeColumns L cl")
  case (Inl e)
  then show ?thesis
    using first by (simp add: index_unfold_fresh [OF en tr act])
next
  case (Inr a)
  note ac = this
  show ?thesis
  proof (cases "ac_source a = JNull")
    case True
    then show ?thesis
      using first ac en by (auto simp: index_unfold_fresh [OF en tr act])
  next
    case False
    then have src: "ac_source a = cl_source cl"
      using activeColumns_source [OF ac] by simp
    show ?thesis
    proof (cases "ix_indexes ix c")
      case (Some entry)
      then show ?thesis
        using first ac False src en by (auto simp: index_unfold_fresh [OF en tr act])
    next
      case None
      obtain r3 ix3 where b: "build_entry L E (ix\<lparr>ix_active := Some a\<rparr>) a c s cl = (r3, ix3)"
        by (cases "build_entry L E (ix\<lparr>ix_active := Some a\<rparr>) a c s cl")
      from build_entry_frame [OF b] have fr: "ix_active ix3 = Some a" "ix_enabled ix3"
        using en by auto
      show ?thesis
        using first ac False src None b fr
        by (auto simp: index_unfold_fresh [OF en tr act] split: sum.splits)
    qed
  qed
qed

lemma index_post_same:
  assumes en: "ix_enabled ix" and tr: "truthy (cl_source cl)"
    and act: "ix_active ix = Some a" and same: "strict_eq (ac_source a) (cl_source cl)"
    and first: "index L E ix c s cl = (Inr r, ix1)"
  shows "ix_enabled ix1 \<and> ix_active ix1 = Some a \<and> ix_indexes ix1 c = Some r"
proof (cases "ix_indexes ix c")
  case (Some entry)
  then show ?thesis
    using first en act by (auto simp: index_unfold_active [OF en tr act same])
next
  case None
  obtain r3 ix3 where b: "build_entry L E ix a c s cl = (r3, ix3)"
    by (cases "build_entry L E ix a c s cl")
  from build_entry_frame [OF b] have fr: "ix_active ix3 = Some a" "ix_enabled ix3"
    using en act by auto
  show ?thesis
    using first None b fr
    by (auto simp: index_unfold_active [OF en tr act same] split: sum.splits)
qed

lemma strict_eq_truthy: "strict_eq x y \<Longrightarrow> x = y"
  by (cases x; cases y) auto

lemma index_post:
  assumes en: "ix_enabled ix" and tr: "truthy (cl_source cl)"
    and first: "index L E ix c s cl = (Inr r, ix1)"
  shows "ix_enabled ix1 \<and>
     ((r = Null \<and> (\<exists>a. activeColumns L cl = Inr a \<and> ac_source a = JNull
                      \<and> ix_active ix1 = Some a))
      \<or> (\<exists>a. ix_active ix1 = Some a \<and> ac_source a = cl_source cl
               \<and> ix_indexes ix1 c = Some r))"
proof (cases "ix_active ix")
  case None
  show ?thesis
    by (rule index_post_fresh [OF en tr None first])
next
  case (Some a)
  show ?thesis
  proof (cases "strict_eq (ac_source a) (cl_source cl)")
    case True
    then show ?thesis
      using index_post_same [OF en tr Some True first] strict_eq_truthy [OF True] by auto
  next
    case False
    have en': "ix_enabled (clear ix)" and act': "ix_active (clear ix) = None"
      using en by (simp_all add: clear_def)
    have "index L E (clear ix) c s cl = (Inr r, ix1)"
      using first index_unfold_changed [OF en tr Some False, of L E c s] by simp
    then show ?thesis
      by (rule index_post_fresh [OF en' tr act'])
  qed
qed

text \<open>
  C2. When a call of \<open>index\<close> on an enabled indexer has returned a value, a second call
  with the same client and the same clause (and any selection) returns that same value and
  gives no further request to the coordinator.
\<close>

theorem index_twice:
  assumes en: "ix_enabled ix"
    and first: "index L E ix c s cl = (Inr r, ix1)"
  shows "\<exists>ix2. index L E ix1 c s' cl = (Inr r, ix2)
           \<and> coordinator_log ix2 = coordinator_log ix1"
proof (cases "truthy (cl_source cl)")
  case False
  then have "r = Null" "ix1 = ix"
    using first en by (simp_all add: index_def)
  then show ?thesis
    using False en by (simp add: index_def)
next
  case True
  note tr = this
  from index_post [OF en tr first] have en1: "ix_enabled ix1"
    and cases: "(r = Null \<and> (\<exists>a. activeColumns L cl = Inr a \<and> ac_source a = JNull
                      \<and> ix_active ix1 = Some a))
      \<or> (\<exists>a. ix_active ix1 = Some a \<and> ac_source a = cl_source cl
               \<and> ix_indexes ix1 c = Some r)"
    by simp_all
  from cases show ?thesis
  proof
    assume "r = Null \<and> (\<exists>a. activeColumns L cl = Inr a \<and> ac_source a = JNull
                      \<and> ix_active ix1 = Some a)"
    then obtain a where r: "r = Null" and ac: "activeColumns L cl = Inr a"
      and nul: "ac_source a = JNull" and act: "ix_active ix1 = Some a"
      by auto
    have diff: "\<not> strict_eq (ac_source a) (cl_source cl)"
      using nul tr by (cases "cl_source cl") auto
    have en': "ix_enabled (clear ix1)" and act': "ix_active (clear ix1) = None"
      using en1 by (simp_all add: clear_def)
    have "index L E ix1 c s' cl = (Inr Null, (clear ix1)\<lparr>ix_active := Some a\<rparr>)"
      using index_unfold_changed [OF en1 tr act diff, of L E c s']
        index_unfold_fresh [OF en' tr act', of L E c s'] ac nul
      by simp
    then show ?thesis
      using r by (simp add: clear_def)
  next
    assume "\<exists>a. ix_active ix1 = Some a \<and> ac_source a = cl_source cl
               \<and> ix_indexes ix1 c = Some r"
    then obtain a where act: "ix_active ix1 = Some a" and src: "ac_source a = cl_source cl"
      and ent: "ix_indexes ix1 c = Some r"
      by auto
    have same: "strict_eq (ac_source a) (cl_source cl)"
      using src tr truthy_strict_eq by simp
    show ?thesis
      using index_unfold_active [OF en1 tr act same, of L E c s'] ent by simp
  qed
qed


lemma index_frame:
  assumes "index L E ix c s cl = (r, ix')"
  shows "ix_enabled ix' = ix_enabled ix \<and> ix_schema ix' = ix_schema ix"
  using assms
  by (auto simp: index_def Let_def clear_def
      split: if_splits option.splits sum.splits prod.splits dest: build_entry_frame)


lemma index_disabled: "\<not> ix_enabled ix \<Longrightarrow> index L E ix c s cl = (Inr Null, ix)"
  by (simp add: index_def)

lemma disabled_invariant:
  "reachable L E ix \<Longrightarrow> \<not> ix_enabled ix \<Longrightarrow> ix_active ix = None \<and> ix_indexes ix = Map.empty"
proof (induction rule: reachable.induct)
  case (r_new schema enabled h lg)
  then show ?case by (simp add: new_indexer_def)
next
  case (r_enabled ix state)
  then show ?case by (auto simp: set_enabled_def clear_def split: if_splits)
next
  case (r_schema ix schema)
  then show ?case by (auto simp: set_schema_def clear_def split: if_splits)
next
  case (r_drop ix)
  then show ?case by (simp add: dropIndexTables_def exec_def clear_def)
next
  case (r_clear ix)
  then show ?case by (simp add: clear_def)
next
  case (r_index ix client selection cl)
  obtain r ix' where i: "index L E ix client selection cl = (r, ix')"
    by (cases "index L E ix client selection cl")
  from index_frame [OF i] r_index.prems i have dis: "\<not> ix_enabled ix"
    by simp
  then have "ix' = ix"
    using i by (simp add: index_disabled)
  then show ?case
    using r_index.IH dis i by simp
next
  case (r_world ix h lg)
  then show ?case by simp
qed

text \<open>
  C3. In every state that a disabled indexer reaches, \<open>index\<close> returns \<open>null\<close> for any
  arguments and changes nothing, \<open>active\<close> is \<open>null\<close> and \<open>indexes\<close> is empty. Setting
  \<open>enabled\<close> to \<open>false\<close> on an enabled indexer is \<open>clear()\<close> followed by the assignment of
  the flag.
\<close>

theorem disabled_indexer:
  "(reachable L E ix \<and> \<not> ix_enabled ix \<longrightarrow>
      index L E ix c s cl = (Inr Null, ix) \<and> ix_active ix = None \<and> ix_indexes ix = Map.empty)
   \<and> (ix_enabled ix' \<longrightarrow>
      set_enabled ix' False = (clear ix')\<lparr>ix_enabled := False\<rparr>
      \<and> ix_active (set_enabled ix' False) = None
      \<and> ix_indexes (set_enabled ix' False) = Map.empty
      \<and> \<not> ix_enabled (set_enabled ix' False))"
proof (intro conjI impI)
  assume "reachable L E ix \<and> \<not> ix_enabled ix"
  then show "index L E ix c s cl = (Inr Null, ix)"
    by (simp add: index_disabled)
next
  assume "reachable L E ix \<and> \<not> ix_enabled ix"
  then show "ix_active ix = None" "ix_indexes ix = Map.empty"
    using disabled_invariant [of L E ix] by simp_all
next
  assume "ix_enabled ix'"
  then show "set_enabled ix' False = (clear ix')\<lparr>ix_enabled := False\<rparr>"
    "ix_active (set_enabled ix' False) = None"
    "ix_indexes (set_enabled ix' False) = Map.empty"
    "\<not> ix_enabled (set_enabled ix' False)"
    by (simp_all add: set_enabled_def clear_def)
qed

lemma build_entry_cube:
  "build_entry L E ix a c s cl = (Inr (Cube info), ix3) \<Longrightarrow>
     coordinator_log ix3 = coordinator_log ix @
       [[''CREATE SCHEMA IF NOT EXISTS '' @ ix_schema ix,
         lib_create L (ci_table info) (ci_create info)]]
     \<and> ci_result info = Some (length (coordinator_log ix))"
  by (auto simp: build_entry_def exec_def split: option.splits if_splits prod.splits sum.splits)

lemma index_fresh_cube:
  assumes act: "ix_active ix = None" and emp: "ix_indexes ix c = None"
    and i: "index L E ix c s cl = (Inr (Cube info), ix1)"
  shows "coordinator_log ix1 = coordinator_log ix @
       [[''CREATE SCHEMA IF NOT EXISTS '' @ ix_schema ix,
         lib_create L (ci_table info) (ci_create info)]]
     \<and> ci_result info = Some (length (coordinator_log ix))"
proof -
  have en: "ix_enabled ix"
    using i by (auto simp: index_def split: if_splits)
  have tr: "truthy (cl_source cl)"
    using i en by (cases "truthy (cl_source cl)") (auto simp: index_def Let_def)
  show ?thesis
    using i emp
    by (auto simp: index_unfold_fresh [OF en tr act]
        split: sum.splits if_splits prod.splits dest!: build_entry_cube)
qed


text \<open>
  C9. \<open>dropIndexTables\<close> empties \<open>indexes\<close>, sets \<open>active\<close> to \<open>null\<close>, gives the
  coordinator the one request made of the statement
  \<open>DROP SCHEMA IF EXISTS "<schema>" CASCADE\<close> and returns its promise. A following call of
  \<open>index\<close> that returns a cube has given the coordinator one more request:
  \<open>CREATE SCHEMA IF NOT EXISTS <schema>\<close> followed by the creation of the table; its promise
  is the cube's \<open>result\<close>.
\<close>

theorem dropIndexTables_then_index:
  assumes d: "dropIndexTables ix = (p, ix0)"
  shows "ix_indexes ix0 = Map.empty \<and> ix_active ix0 = None
     \<and> coordinator_log ix0 = coordinator_log ix @
          [[''DROP SCHEMA IF EXISTS '' @ [CHR 0x22] @ ix_schema ix @ [CHR 0x22] @ '' CASCADE'']]
     \<and> p = length (coordinator_log ix)
     \<and> (index L E ix0 c s cl = (Inr (Cube info), ix1) \<longrightarrow>
          coordinator_log ix1 = coordinator_log ix0 @
            [[''CREATE SCHEMA IF NOT EXISTS '' @ ix_schema ix,
              lib_create L (ci_table info) (ci_create info)]]
          \<and> ci_result info = Some (length (coordinator_log ix0)))"
proof -
  have st: "ix_indexes ix0 = Map.empty" "ix_active ix0 = None" "ix_schema ix0 = ix_schema ix"
    "coordinator_log ix0 = coordinator_log ix @
          [[''DROP SCHEMA IF EXISTS '' @ [CHR 0x22] @ ix_schema ix @ [CHR 0x22] @ '' CASCADE'']]"
    "p = length (coordinator_log ix)"
    using d by (auto simp: dropIndexTables_def exec_def clear_def drop_statement_def dq_def)
  have "ix_indexes ix0 c = None"
    using st by simp
  then show ?thesis
    using st index_fresh_cube [OF st(2), of c L E s cl info ix1] by auto
qed








subsection \<open>Concrete runs of the indexer\<close>

lemma sales_index:
  assumes en: "ix_enabled ix" and act: "ix_active ix = None" and emp: "ix_indexes ix 0 = None"
    and st: "store ix = []" and sc: "ix_schema ix = ''mosaic''"
  shows "\<exists>info ix1. index example_lib example_collab ix 0 () (point_clause (JStr ''S''))
        = (Inr (Cube info), ix1)
     \<and> ci_table info = ''mosaic.cube_cf630720'' \<and> ci_create info = sales_create"
proof -
  have tr: "truthy (cl_source (point_clause (JStr ''S'')))"
    by (simp add: point_clause_def)
  from sales_plan [of "JStr ''S''"] obtain info h
    where plan: "dataCubeInfo example_lib sales_store 0 (point_active (JStr ''S'')) sales_cols
         ''mosaic'' = Inr (info, h)"
      and t: "ci_table info = ''mosaic.cube_cf630720''" and c: "ci_create info = sales_create"
    by auto
  have q: "client_query example_collab 0 () (cl_source (point_clause (JStr ''S''))) (store ix)
      = (0, sales_store)"
    using st by (simp add: example_collab_def alloc_def sales_store_def)
  have cols: "indexColumns example_collab 0 = Some sales_cols"
    and skip: "\<not> selection_skip example_collab () 0 (point_clause (JStr ''S''))"
    by (simp_all add: example_collab_def)
  have src: "ac_source (point_active (JStr ''S'')) \<noteq> JNull"
    by (simp add: point_active_def)
  show ?thesis
    using emp plan t c q cols skip src sc
    by (simp add: index_unfold_fresh [OF en tr act] point_activeColumns build_entry_def
        exec_def)
qed

theorem index_falsy_source_witness:
  "index example_lib example_collab fresh_indexer 0 () (point_clause (JNum 0))
     = (Inr Null, fresh_indexer)
   \<and> index example_lib example_collab fresh_indexer 0 () (point_clause (JStr []))
     = (Inr Null, fresh_indexer)
   \<and> index example_lib example_collab fresh_indexer 0 () (point_clause (JBool False))
     = (Inr Null, fresh_indexer)"
  using index_falsy_source [of fresh_indexer "point_clause (JNum 0)" example_lib example_collab 0 "()"]
    index_falsy_source [of fresh_indexer "point_clause (JStr [])" example_lib example_collab 0 "()"]
    index_falsy_source [of fresh_indexer "point_clause (JBool False)" example_lib example_collab 0 "()"]
  by (simp add: fresh_indexer_def new_indexer_def point_clause_def)

theorem index_twice_witness:
  "\<exists>info ix1 ix2.
     index example_lib example_collab fresh_indexer 0 () (point_clause (JStr ''S''))
       = (Inr (Cube info), ix1)
     \<and> index example_lib example_collab ix1 0 () (point_clause (JStr ''S''))
       = (Inr (Cube info), ix2)
     \<and> coordinator_log ix2 = coordinator_log ix1"
proof -
  have en: "ix_enabled fresh_indexer"
    by (simp add: fresh_indexer_def new_indexer_def)
  from sales_index [of fresh_indexer] obtain info ix1
    where first: "index example_lib example_collab fresh_indexer 0 () (point_clause (JStr ''S''))
        = (Inr (Cube info), ix1)"
    by (auto simp: fresh_indexer_def new_indexer_def)
  from index_twice [OF en first, of "()"]
  show ?thesis
    using first by blast
qed

lemma set_enabled_False: "\<not> ix_enabled (set_enabled ix False)"
  by (simp add: set_enabled_def)

theorem disabled_indexer_witness:
  "index example_lib example_collab
       (set_enabled (snd (index example_lib example_collab fresh_indexer 0 ()
           (point_clause (JStr ''S'')))) False) 0 () (point_clause (JStr ''S''))
     = (Inr Null,
        set_enabled (snd (index example_lib example_collab fresh_indexer 0 ()
           (point_clause (JStr ''S'')))) False)
   \<and> ix_active (set_enabled (snd (index example_lib example_collab fresh_indexer 0 ()
           (point_clause (JStr ''S'')))) False) = None
   \<and> ix_indexes (set_enabled (snd (index example_lib example_collab fresh_indexer 0 ()
           (point_clause (JStr ''S'')))) False) = Map.empty
   \<and> set_enabled fresh_indexer False = (clear fresh_indexer)\<lparr>ix_enabled := False\<rparr>"
proof -
  let ?ix = "set_enabled (snd (index example_lib example_collab fresh_indexer 0 ()
           (point_clause (JStr ''S'')))) False"
  have "reachable example_lib example_collab fresh_indexer"
    unfolding fresh_indexer_def by (rule r_new)
  then have r: "reachable example_lib example_collab ?ix"
    by (intro r_enabled r_index)
  have d: "\<not> ix_enabled ?ix"
    by (rule set_enabled_False)
  have en: "ix_enabled fresh_indexer"
    by (simp add: fresh_indexer_def new_indexer_def)
  from disabled_indexer [of example_lib example_collab ?ix 0 "()" "point_clause (JStr ''S'')"
      fresh_indexer]
  show ?thesis
    using r d en by simp
qed

theorem dropIndexTables_then_index_witness:
  "\<exists>info ix1.
     index example_lib example_collab (snd (dropIndexTables fresh_indexer)) 0 ()
       (point_clause (JStr ''S'')) = (Inr (Cube info), ix1)
     \<and> coordinator_log ix1 =
         [[''DROP SCHEMA IF EXISTS '' @ dq @ ''mosaic'' @ dq @ '' CASCADE''],
          [''CREATE SCHEMA IF NOT EXISTS mosaic'',
           ''CREATE TABLE IF NOT EXISTS mosaic.cube_cf630720 AS '' @ sales_create]]
     \<and> ci_result info = Some 1"
proof -
  obtain p ix0 where d: "dropIndexTables fresh_indexer = (p, ix0)"
    by (cases "dropIndexTables fresh_indexer")
  have st: "ix_enabled ix0" "ix_active ix0 = None" "ix_indexes ix0 0 = None" "store ix0 = []"
    "ix_schema ix0 = ''mosaic''"
    using d
    by (auto simp: dropIndexTables_def exec_def clear_def fresh_indexer_def new_indexer_def)
  from sales_index [OF st] obtain info ix1
    where i: "index example_lib example_collab ix0 0 () (point_clause (JStr ''S''))
        = (Inr (Cube info), ix1)"
      and t: "ci_table info = ''mosaic.cube_cf630720''" and c: "ci_create info = sales_create"
    by auto
  from dropIndexTables_then_index [OF d, of example_lib example_collab 0 "()"
      "point_clause (JStr ''S'')" info ix1]
  show ?thesis
    using i t c d
    by (auto simp: fresh_indexer_def new_indexer_def example_lib_def dq_def)
qed


end
